theory Spec2Isabelle
  imports Complex_Main
begin

section \<open>Scalars, points and vectors\<close>

text \<open>
  The application computes with \<^verbatim>\<open>Vrui::Scalar\<close> (a double) and with \<^verbatim>\<open>float\<close>.
  Where no branch depends on a computed value (the drawing code passes its numbers on
  to OpenGL) a scalar is an exact real. Where a branch compares computed values (the two
  \<^verbatim>\<open>selectNode\<close> functions) the arithmetic is the machine's: see the section on
  machine arithmetic. An index outside an array, whose behaviour C++ leaves undefined,
  is a result of its own, of type \<open>error\<close>.
\<close>

type_synonym Scalar = real

datatype Point = Point Scalar Scalar Scalar

datatype Vector = Vector Scalar Scalar Scalar

datatype error = OutOfBounds

text \<open>\<^verbatim>\<open>p - q\<close> on points, \<^verbatim>\<open>v * w\<close> on vectors, and the functions of the
  \<^verbatim>\<open>Geometry\<close> and \<^verbatim>\<open>Math\<close> namespaces the source calls.\<close>

fun diff :: "Point \<Rightarrow> Point \<Rightarrow> Vector" where
  "diff (Point a b c) (Point a' b' c') = Vector (a - a') (b - b') (c - c')"

fun dot :: "Vector \<Rightarrow> Vector \<Rightarrow> Scalar" where
  "dot (Vector a b c) (Vector a' b' c') = a * a' + b * b' + c * c'"

fun cross :: "Vector \<Rightarrow> Vector \<Rightarrow> Vector" where
  "cross (Vector a b c) (Vector a' b' c') =
     Vector (b * c' - c * b') (c * a' - a * c') (a * b' - b * a')"

definition Math_sqr :: "Scalar \<Rightarrow> Scalar" where
  "Math_sqr x = x * x"

definition Geometry_sqr :: "Vector \<Rightarrow> Scalar" where
  "Geometry_sqr v = dot v v"

definition sqrDist :: "Point \<Rightarrow> Point \<Rightarrow> Scalar" where
  "sqrDist p q = Geometry_sqr (diff p q)"

definition mag :: "Vector \<Rightarrow> Scalar" where
  "mag v = sqrt (Geometry_sqr v)"

text \<open>\<^verbatim>\<open>numeric_limits<float>::max()\<close>, the largest finite single-precision value.\<close>

definition FLT_MAX :: Scalar where
  "FLT_MAX = 340282346638528859811704183484516925440"

record Ray =
  getOrigin :: Point
  getDirection :: Vector

section \<open>Machine arithmetic\<close>

text \<open>
  The arithmetic of \<^verbatim>\<open>float\<close> and \<^verbatim>\<open>double\<close> is IEEE 754 binary32 and binary64,
  rounding to nearest, every operation rounded to its own type (no extended precision
  and no fused multiply-add). A value is not-a-number, an infinity or a finite real.
  The two zeros are one value: the only division of the source has the divisor
  \<^verbatim>\<open>Math::sqr(x)\<close>, whose zero is the positive one, and no other operation of the
  selection code tells them apart. A coordinate of a point or a vector, a node radius
  and a cone angle are the real values of stored doubles.
\<close>

datatype fval = NaN | MinusInf | Fin real | PlusInf

text \<open>
  Rounding to nearest, ties to even, to a format with \<open>p\<close> significant bits and
  exponents from \<open>emin\<close> to \<open>emax\<close>: the unit in the last place follows the exponent of
  the argument, held at \<open>emin\<close> for subnormal numbers, and a result of magnitude
  \<open>2\<^bsup>emax + 1\<^esup>\<close> or more is an infinity. \<open>roundFloat\<close> is IEEE 754 binary32,
  \<open>roundDouble\<close> is binary64.
\<close>

definition expo :: "real \<Rightarrow> int" where
  "expo x = \<lfloor>log 2 \<bar>x\<bar>\<rfloor>"

definition rne :: "real \<Rightarrow> int" where
  "rne q =
     (let f = \<lfloor>q\<rfloor>; d = q - of_int f
      in if d < 1 / 2 then f else if 1 / 2 < d then f + 1 else if even f then f else f + 1)"

definition roundTo :: "nat \<Rightarrow> int \<Rightarrow> int \<Rightarrow> real \<Rightarrow> fval" where
  "roundTo p emin emax x =
     (if x = 0 then Fin 0
      else
        let e = max (expo x) emin;
            u = 2 powi (e - int p + 1);
            r = of_int (rne (x / u)) * u
        in if 2 powi (emax + 1) \<le> \<bar>r\<bar> then (if 0 < r then PlusInf else MinusInf) else Fin r)"

definition roundFloat :: "real \<Rightarrow> fval" where
  "roundFloat = roundTo 24 (- 126) 127"

definition roundDouble :: "real \<Rightarrow> fval" where
  "roundDouble = roundTo 53 (- 1022) 1023"

text \<open>The comparisons: every comparison with not-a-number is false.\<close>

fun flt :: "fval \<Rightarrow> fval \<Rightarrow> bool" where
  "flt NaN b = False"
| "flt a NaN = False"
| "flt PlusInf b = False"
| "flt a MinusInf = False"
| "flt MinusInf b = True"
| "flt a PlusInf = True"
| "flt (Fin x) (Fin y) = (x < y)"

fun fle :: "fval \<Rightarrow> fval \<Rightarrow> bool" where
  "fle NaN b = False"
| "fle a NaN = False"
| "fle MinusInf b = True"
| "fle a PlusInf = True"
| "fle PlusInf b = False"
| "fle a MinusInf = False"
| "fle (Fin x) (Fin y) = (x \<le> y)"

definition fge :: "fval \<Rightarrow> fval \<Rightarrow> bool" where
  "fge a b = fle b a"

text \<open>Addition, subtraction, multiplication and division, each rounded by \<open>rnd\<close>, with
  the results IEEE 754 gives for infinities, not-a-number and a zero divisor.\<close>

fun fneg :: "fval \<Rightarrow> fval" where
  "fneg NaN = NaN"
| "fneg MinusInf = PlusInf"
| "fneg PlusInf = MinusInf"
| "fneg (Fin x) = Fin (- x)"

fun fadd :: "(real \<Rightarrow> fval) \<Rightarrow> fval \<Rightarrow> fval \<Rightarrow> fval" where
  "fadd rnd NaN b = NaN"
| "fadd rnd a NaN = NaN"
| "fadd rnd (Fin x) (Fin y) = rnd (x + y)"
| "fadd rnd PlusInf MinusInf = NaN"
| "fadd rnd MinusInf PlusInf = NaN"
| "fadd rnd PlusInf b = PlusInf"
| "fadd rnd MinusInf b = MinusInf"
| "fadd rnd a PlusInf = PlusInf"
| "fadd rnd a MinusInf = MinusInf"

definition fsub :: "(real \<Rightarrow> fval) \<Rightarrow> fval \<Rightarrow> fval \<Rightarrow> fval" where
  "fsub rnd a b = fadd rnd a (fneg b)"

text \<open>The sign of a product or quotient with an infinite result.\<close>

definition signed :: "bool \<Rightarrow> fval" where
  "signed negative = (if negative then MinusInf else PlusInf)"

fun isNegative :: "fval \<Rightarrow> bool" where
  "isNegative (Fin x) = (x < 0)"
| "isNegative MinusInf = True"
| "isNegative a = False"

fun fmul :: "(real \<Rightarrow> fval) \<Rightarrow> fval \<Rightarrow> fval \<Rightarrow> fval" where
  "fmul rnd NaN b = NaN"
| "fmul rnd a NaN = NaN"
| "fmul rnd (Fin x) (Fin y) = rnd (x * y)"
| "fmul rnd (Fin x) b = (if x = 0 then NaN else signed (isNegative (Fin x) \<noteq> isNegative b))"
| "fmul rnd a (Fin y) = (if y = 0 then NaN else signed (isNegative a \<noteq> isNegative (Fin y)))"
| "fmul rnd a b = signed (isNegative a \<noteq> isNegative b)"

fun fdiv :: "(real \<Rightarrow> fval) \<Rightarrow> fval \<Rightarrow> fval \<Rightarrow> fval" where
  "fdiv rnd NaN b = NaN"
| "fdiv rnd a NaN = NaN"
| "fdiv rnd (Fin x) (Fin y) =
     (if y = 0 then (if x = 0 then NaN else signed (x < 0)) else rnd (x / y))"
| "fdiv rnd (Fin x) b = Fin 0"
| "fdiv rnd a (Fin y) = signed (isNegative a \<noteq> (y < 0))"
| "fdiv rnd a b = NaN"

text \<open>The conversion of a double to \<^verbatim>\<open>float\<close>, as in \<^verbatim>\<open>float x = ...\<close>.\<close>

fun toFloat :: "fval \<Rightarrow> fval" where
  "toFloat (Fin x) = roundFloat x"
| "toFloat a = a"

text \<open>
  The functions of Vrui's \<^verbatim>\<open>Geometry\<close> and \<^verbatim>\<open>Math\<close> templates as the selection
  code calls them, at \<^verbatim>\<open>Vrui::Scalar\<close>: every operation is rounded to double, sums run
  in index order. A computed vector has computed components. \<^verbatim>\<open>Math::sqr\<close> is also
  called at \<^verbatim>\<open>float\<close>.
\<close>

datatype ComputedVector = ComputedVector fval fval fval

fun diff_Scalar :: "Point \<Rightarrow> Point \<Rightarrow> ComputedVector" where
  "diff_Scalar (Point a b c) (Point a' b' c') =
     ComputedVector (fsub roundDouble (Fin a) (Fin a')) (fsub roundDouble (Fin b) (Fin b'))
       (fsub roundDouble (Fin c) (Fin c'))"

fun dot_Scalar :: "ComputedVector \<Rightarrow> ComputedVector \<Rightarrow> fval" where
  "dot_Scalar (ComputedVector a b c) (ComputedVector a' b' c') =
     fadd roundDouble
       (fadd roundDouble (fmul roundDouble a a') (fmul roundDouble b b'))
       (fmul roundDouble c c')"

fun cross_Scalar :: "ComputedVector \<Rightarrow> ComputedVector \<Rightarrow> ComputedVector" where
  "cross_Scalar (ComputedVector a b c) (ComputedVector a' b' c') =
     ComputedVector
       (fsub roundDouble (fmul roundDouble b c') (fmul roundDouble c b'))
       (fsub roundDouble (fmul roundDouble c a') (fmul roundDouble a c'))
       (fsub roundDouble (fmul roundDouble a b') (fmul roundDouble b a'))"

definition Geometry_sqr_Scalar :: "ComputedVector \<Rightarrow> fval" where
  "Geometry_sqr_Scalar v = dot_Scalar v v"

definition sqrDist_Scalar :: "Point \<Rightarrow> Point \<Rightarrow> fval" where
  "sqrDist_Scalar p q = Geometry_sqr_Scalar (diff_Scalar p q)"

definition Math_sqr_Scalar :: "fval \<Rightarrow> fval" where
  "Math_sqr_Scalar x = fmul roundDouble x x"

definition Math_sqr_float :: "fval \<Rightarrow> fval" where
  "Math_sqr_float x = fmul roundFloat x x"

text \<open>A stored vector of doubles, such as the direction of a ray, as a computed one.\<close>

fun stored :: "Vector \<Rightarrow> ComputedVector" where
  "stored (Vector a b c) = ComputedVector (Fin a) (Fin b) (Fin c)"

text \<open>A value that is not below zero: a finite one from zero on, the positive infinity,
  or not-a-number, as a sum of squares is.\<close>

definition notNegative :: "fval \<Rightarrow> bool" where
  "notNegative a = (case a of Fin x \<Rightarrow> 0 \<le> x | MinusInf \<Rightarrow> False | NaN \<Rightarrow> True | PlusInf \<Rightarrow> True)"

section \<open>The graph and the application state\<close>

text \<open>
  \<^verbatim>\<open>Edge\<close> and \<^verbatim>\<open>Graph\<close> are declared in \<^verbatim>\<open>graph.hpp\<close>, which is not among the
  sources. The records hold what \<^verbatim>\<open>mycelia.cpp\<close> reads through their accessors:
  \<^verbatim>\<open>getNodes()\<close> and \<^verbatim>\<open>getEdges()\<close> in iteration order, \<^verbatim>\<open>getEdge(id)\<close>,
  \<^verbatim>\<open>getNodePosition(node)\<close>, \<^verbatim>\<open>getVersion()\<close> and so on. Node and edge
  identifiers are C++ \<^verbatim>\<open>int\<close>s.
\<close>

record Edge =
  source :: int
  target :: int
  weight :: Scalar
  material :: int

record Graph =
  nodes :: "int list"
  edges :: "int list"
  getEdge :: "int \<Rightarrow> Edge"
  getNodePosition :: "int \<Rightarrow> Point"
  getNodeComponent :: "int \<Rightarrow> int"
  getNodeType :: "int \<Rightarrow> string"
  getNodeImagePath :: "int \<Rightarrow> string"
  getNodeSize :: "int \<Rightarrow> Scalar"
  getTextureNodeMode :: string
  getVersion :: int

text \<open>Modelled from the spec: \<^verbatim>\<open>Graph::getNodeCount\<close>, \<^verbatim>\<open>Graph::isValidNode\<close>,
  \<^verbatim>\<open>Graph::hasEdge\<close>, \<^verbatim>\<open>Graph::isBidirectional\<close> and \<^verbatim>\<open>Graph::update\<close> are
  defined outside the sources. A valid node is a currently allocated node; an edge is
  bidirectional when an edge exists in both directions between the same pair; a mutation
  visible to rendering increases the version by one.\<close>

definition getNodeCount :: "Graph \<Rightarrow> int" where
  "getNodeCount gr = int (length (nodes gr))"

definition isValidNode :: "Graph \<Rightarrow> int \<Rightarrow> bool" where
  "isValidNode gr node = (node \<in> set (nodes gr))"

definition hasEdge :: "Graph \<Rightarrow> int \<Rightarrow> int \<Rightarrow> bool" where
  "hasEdge gr s t = list_ex (\<lambda>i. source (getEdge gr i) = s \<and> target (getEdge gr i) = t) (edges gr)"

definition isBidirectional :: "Graph \<Rightarrow> int \<Rightarrow> int \<Rightarrow> bool" where
  "isBidirectional gr s t = (hasEdge gr s t \<and> hasEdge gr t s)"

definition update :: "Graph \<Rightarrow> Graph" where
  "update gr = gr\<lparr>getVersion := getVersion gr + 1\<rparr>"

text \<open>Modelled from the spec: the layout classes and the edge bundler
  (\<^verbatim>\<open>layout/*.hpp\<close>) are outside the sources. Their lifecycle is Stopped or Running;
  \<^verbatim>\<open>start()\<close> leaves the object Running (and is idempotent), \<^verbatim>\<open>stop()\<close> leaves it
  Stopped. \<^verbatim>\<open>ArfLayout\<close> is the dynamic variant, \<^verbatim>\<open>FruchtermanReingoldLayout\<close>
  the static one.\<close>

datatype lifecycle = Stopped | Running

definition start :: "lifecycle \<Rightarrow> lifecycle" where
  "start l = Running"

definition stop :: "lifecycle \<Rightarrow> lifecycle" where
  "stop l = Stopped"

definition isStopped :: "lifecycle \<Rightarrow> bool" where
  "isStopped l = (l = Stopped)"

text \<open>The member \<^verbatim>\<open>layout\<close> points to one of the two layout objects.\<close>

datatype layout_ptr = StaticLayout | DynamicLayout

text \<open>
  The macros of \<^verbatim>\<open>mycelia.hpp\<close>, the default arguments it declares and the
  \<^verbatim>\<open>Graph\<close> methods whose bodies are not among the sources are parameters of the
  model: every function that uses one takes the record \<open>H\<close>.
\<close>

record Headers =
  SELECTION_NONE :: int
  MATERIAL_SELECTED :: int
  MATERIAL_SELECTED_PREVIOUS :: int
  LAYOUT_STATIC :: int
  LAYOUT_DYNAMIC :: int
  drawNodes_default_filter :: string
  Edge_default_weight :: Scalar
  Edge_default_material :: int
  locate :: "Graph \<Rightarrow> Point \<times> Scalar"
  moveNodes :: "Point \<Rightarrow> Graph \<Rightarrow> Graph"
  randomizePositions :: "int \<Rightarrow> Graph \<Rightarrow> Graph"
  clearVelocities :: "Graph \<Rightarrow> Graph"
  getShortestPath :: "int \<Rightarrow> int \<Rightarrow> Graph \<Rightarrow> int list"

text \<open>
  The members of \<^verbatim>\<open>Mycelia\<close> that the functions below read or write. A toggle button
  is its toggle state; the radio box of the layout menu is the index of its selected
  toggle (0 the static button, 1 the dynamic one); a window is whether it is shown. The
  edge bundler is its lifecycle and its segment table.
\<close>

record Mycelia =
  g :: Graph
  gCopy :: Graph
  layout :: layout_ptr
  staticLayout :: lifecycle
  dynamicLayout :: lifecycle
  edgeBundler :: lifecycle
  getSegmentCount :: int
  getSegment :: "int \<Rightarrow> int \<Rightarrow> Point"
  skipLayout :: bool
  selectedNode :: int
  previousNode :: int
  predecessorVector :: "int list"
  coneAngle :: Scalar
  nodeRadius :: Scalar
  arrowHeight :: Scalar
  arrowWidth :: Scalar
  edgeThickness :: Scalar
  edgeOffset :: Scalar
  zVector :: Vector
  showingLogo :: bool
  bundleButton :: bool
  componentButton :: bool
  nodeInfoButton :: bool
  shortestPathButton :: bool
  spanningTreeButton :: bool
  layoutRadioBox :: int
  layoutWindow :: bool
  nodeWindow :: "int option"
  navigation :: "Point \<times> Scalar"

section \<open>Node selection\<close>

text \<open>
  \<^verbatim>\<open>Mycelia::selectNode(const Vrui::Point&)\<close>: the loop keeps the pair
  \<^verbatim>\<open>(result, minDist2)\<close>; \<^verbatim>\<open>minDist2\<close> and \<^verbatim>\<open>dist2\<close> are of type \<^verbatim>\<open>float\<close>,
  the squared distance and the square of the node radius are computed in double and
  converted. The members \<^verbatim>\<open>nodeRadius\<close> and \<^verbatim>\<open>coneAngle\<close> are declared in the class
  header, outside the sources; they are read as \<^verbatim>\<open>Vrui::Scalar\<close>, the type of
  \<^verbatim>\<open>radius / 80\<close> that \<^verbatim>\<open>resetNavigationCallback\<close> assigns to \<^verbatim>\<open>nodeRadius\<close>. The
  general statements below speak of the two squares as computed, whatever their type.
\<close>

fun selectNode_Point_loop :: "Graph \<Rightarrow> Point \<Rightarrow> int list \<Rightarrow> int \<times> fval \<Rightarrow> int \<times> fval" where
  "selectNode_Point_loop gr clickPosition [] (result, minDist2) = (result, minDist2)"
| "selectNode_Point_loop gr clickPosition (node # rest) (result, minDist2) =
     (let dist2 = toFloat (sqrDist_Scalar clickPosition (getNodePosition gr node))
      in if flt dist2 minDist2
         then selectNode_Point_loop gr clickPosition rest (node, dist2)
         else selectNode_Point_loop gr clickPosition rest (result, minDist2))"

definition selectNode_Point :: "Headers \<Rightarrow> Mycelia \<Rightarrow> Point \<Rightarrow> int" where
  "selectNode_Point H st clickPosition =
     fst (selectNode_Point_loop (g st) clickPosition (nodes (g st))
            (SELECTION_NONE H, toFloat (Math_sqr_Scalar (Fin (nodeRadius st)))))"

text \<open>
  \<^verbatim>\<open>Mycelia::selectNode(const Vrui::Ray&)\<close>: the loop keeps \<^verbatim>\<open>(result, lambdaMin)\<close>.
  \<^verbatim>\<open>x\<close>, \<^verbatim>\<open>y2\<close>, \<^verbatim>\<open>lambdaMin\<close> and \<^verbatim>\<open>coneAngle2\<close> are of type \<^verbatim>\<open>float\<close>;
  \<^verbatim>\<open>Math::sqr(x)\<close> and the quotient are computed in \<^verbatim>\<open>float\<close>. A zero divisor gives
  an infinity or not-a-number, and the loop goes on.
\<close>

fun selectNode_Ray_loop :: "Graph \<Rightarrow> Ray \<Rightarrow> fval \<Rightarrow> int list \<Rightarrow> int \<times> fval \<Rightarrow> int \<times> fval" where
  "selectNode_Ray_loop gr ray coneAngle2 [] (result, lambdaMin) = (result, lambdaMin)"
| "selectNode_Ray_loop gr ray coneAngle2 (node # rest) (result, lambdaMin) =
     (let sp = diff_Scalar (getNodePosition gr node) (getOrigin ray);
          x = toFloat (dot_Scalar sp (stored (getDirection ray)))
      in if fge x (Fin 0) \<and> flt x lambdaMin
         then (let y2 = toFloat (Geometry_sqr_Scalar (cross_Scalar sp (stored (getDirection ray))))
               in if fle (fdiv roundFloat y2 (Math_sqr_float x)) coneAngle2
                  then selectNode_Ray_loop gr ray coneAngle2 rest (node, x)
                  else selectNode_Ray_loop gr ray coneAngle2 rest (result, lambdaMin))
         else selectNode_Ray_loop gr ray coneAngle2 rest (result, lambdaMin))"

definition selectNode_Ray :: "Headers \<Rightarrow> Mycelia \<Rightarrow> Ray \<Rightarrow> int" where
  "selectNode_Ray H st ray =
     fst (selectNode_Ray_loop (g st) ray (toFloat (Math_sqr_Scalar (Fin (coneAngle st))))
            (nodes (g st)) (SELECTION_NONE H, Fin FLT_MAX))"

text \<open>The values the two loops compute for a node: the squared distance from the
  query point; the forward projection onto the ray, the squared perpendicular offset
  from the ray and their quotient; and the threshold of the cone test.\<close>

definition dist2_float :: "Graph \<Rightarrow> Point \<Rightarrow> int \<Rightarrow> fval" where
  "dist2_float gr clickPosition node =
     toFloat (sqrDist_Scalar clickPosition (getNodePosition gr node))"

definition forward_float :: "Graph \<Rightarrow> Ray \<Rightarrow> int \<Rightarrow> fval" where
  "forward_float gr ray node =
     toFloat (dot_Scalar (diff_Scalar (getNodePosition gr node) (getOrigin ray))
                (stored (getDirection ray)))"

definition offset2_float :: "Graph \<Rightarrow> Ray \<Rightarrow> int \<Rightarrow> fval" where
  "offset2_float gr ray node =
     toFloat (Geometry_sqr_Scalar
       (cross_Scalar (diff_Scalar (getNodePosition gr node) (getOrigin ray))
          (stored (getDirection ray))))"

definition quotient_float :: "Graph \<Rightarrow> Ray \<Rightarrow> int \<Rightarrow> fval" where
  "quotient_float gr ray node =
     fdiv roundFloat (offset2_float gr ray node) (Math_sqr_float (forward_float gr ray node))"

definition nodeRadius2 :: "Mycelia \<Rightarrow> fval" where
  "nodeRadius2 st = toFloat (Math_sqr_Scalar (Fin (nodeRadius st)))"

definition coneAngle2 :: "Mycelia \<Rightarrow> fval" where
  "coneAngle2 st = toFloat (Math_sqr_Scalar (Fin (coneAngle st)))"

text \<open>The cone test of the loop at a node, for a bound on the forward projection: the
  node passes \<^verbatim>\<open>x >= 0 && x < bound\<close> and \<^verbatim>\<open>y2 / Math::sqr(x) <= coneAngle2\<close>.\<close>

definition candidate :: "Graph \<Rightarrow> Ray \<Rightarrow> fval \<Rightarrow> fval \<Rightarrow> int \<Rightarrow> bool" where
  "candidate gr ray threshold bound node =
     (fge (forward_float gr ray node) (Fin 0) \<and> flt (forward_float gr ray node) bound \<and>
      fle (quotient_float gr ray node) threshold)"

text \<open>The same quantities in exact arithmetic, as a statement about distances and
  angles reads them.\<close>

definition forward :: "Graph \<Rightarrow> Ray \<Rightarrow> int \<Rightarrow> Scalar" where
  "forward gr ray node = dot (diff (getNodePosition gr node) (getOrigin ray)) (getDirection ray)"

definition offset2 :: "Graph \<Rightarrow> Ray \<Rightarrow> int \<Rightarrow> Scalar" where
  "offset2 gr ray node =
     Geometry_sqr (cross (diff (getNodePosition gr node) (getOrigin ray)) (getDirection ray))"

text \<open>
  \<^verbatim>\<open>Mycelia::setSelectedNode\<close> and \<^verbatim>\<open>Mycelia::shortestPathCallback\<close>. What the
  function writes to \<^verbatim>\<open>cout\<close> is returned beside the state. The call of the RPC
  server is compiled only under \<^verbatim>\<open>__RPCSERVER__\<close> and is not modelled.
\<close>

datatype diagnostic = InvalidNodeSelected int

definition shortestPathCallback :: "Headers \<Rightarrow> Mycelia \<Rightarrow> Mycelia" where
  "shortestPathCallback H st =
     (if shortestPathButton st
      then (if previousNode st \<noteq> SELECTION_NONE H \<and> selectedNode st \<noteq> SELECTION_NONE H
            then st\<lparr>predecessorVector := getShortestPath H (selectedNode st) (previousNode st) (g st)\<rparr>
            else st\<lparr>shortestPathButton := False\<rparr>)
      else st)"

definition setSelectedNode :: "Headers \<Rightarrow> Mycelia \<Rightarrow> int \<Rightarrow> Mycelia \<times> diagnostic list" where
  "setSelectedNode H st node =
     (if \<not> isValidNode (g st) node then (st, [InvalidNodeSelected node])
      else
        let st1 = (if nodeInfoButton st then st\<lparr>nodeWindow := Some node\<rparr> else st);
            st2 = st1\<lparr>previousNode := selectedNode st1, selectedNode := node\<rparr>;
            st3 = shortestPathCallback H st2
        in (st3\<lparr>g := update (g st3)\<rparr>, []))"

definition clearSelections :: "Headers \<Rightarrow> Mycelia \<Rightarrow> Mycelia" where
  "clearSelections H st =
     st\<lparr>previousNode := SELECTION_NONE H, selectedNode := SELECTION_NONE H, g := update (g st)\<rparr>"

section \<open>Layout and bundler lifecycle\<close>

definition isDynamic :: "layout_ptr \<Rightarrow> bool" where
  "isDynamic l = (l = DynamicLayout)"

definition startLayout :: "Mycelia \<Rightarrow> Mycelia" where
  "startLayout st =
     (case layout st of
        StaticLayout \<Rightarrow> st\<lparr>staticLayout := start (staticLayout st)\<rparr>
      | DynamicLayout \<Rightarrow> st\<lparr>dynamicLayout := start (dynamicLayout st)\<rparr>)"

definition stopLayout :: "Mycelia \<Rightarrow> Mycelia" where
  "stopLayout st =
     st\<lparr>edgeBundler := stop (edgeBundler st),
        staticLayout := stop (staticLayout st),
        dynamicLayout := stop (dynamicLayout st)\<rparr>"

definition resumeLayout :: "Mycelia \<Rightarrow> Mycelia" where
  "resumeLayout st = (if isDynamic (layout st) \<and> \<not> skipLayout st then startLayout st else st)"

definition layoutIsStopped :: "Mycelia \<Rightarrow> bool" where
  "layoutIsStopped st =
     isStopped (case layout st of StaticLayout \<Rightarrow> staticLayout st | DynamicLayout \<Rightarrow> dynamicLayout st)"

definition setLayoutType :: "Headers \<Rightarrow> int \<Rightarrow> Mycelia \<Rightarrow> Mycelia" where
  "setLayoutType H type st =
     (if type = LAYOUT_DYNAMIC H then
        let st1 = st\<lparr>edgeBundler := stop (edgeBundler st), bundleButton := False, layoutRadioBox := 1\<rparr>;
            st2 = (if layout st1 \<noteq> DynamicLayout then stopLayout st1 else st1)
        in st2\<lparr>layout := DynamicLayout, layoutWindow := True\<rparr>
      else if type = LAYOUT_STATIC H then
        let st1 = st\<lparr>layoutRadioBox := 0\<rparr>;
            st2 = (if layout st1 \<noteq> StaticLayout then stopLayout st1 else st1)
        in st2\<lparr>layout := StaticLayout, layoutWindow := False\<rparr>
      else st)"

text \<open>\<^verbatim>\<open>Mycelia::bundleCallback\<close>; the argument is \<^verbatim>\<open>cbData->set\<close>.\<close>

definition bundleCallback :: "bool \<Rightarrow> Mycelia \<Rightarrow> Mycelia" where
  "bundleCallback set' st =
     (if getNodeCount (g st) = 0 then st
      else if set' then
        (let st1 = stopLayout st in st1\<lparr>edgeBundler := start (edgeBundler st1)\<rparr>)
      else
        resumeLayout (st\<lparr>edgeBundler := stop (edgeBundler st), g := update (g st)\<rparr>))"

definition resetNavigationCallback :: "Headers \<Rightarrow> Mycelia \<Rightarrow> Mycelia" where
  "resetNavigationCallback H st =
     (let layoutWasRunning = \<not> layoutIsStopped st;
          st1 = stopLayout st;
          (center, radius) = locate H (g st1);
          shift = (case center of Point cx cy cz \<Rightarrow> Point (- cx) (- cy) (- cz));
          st2 = st1\<lparr>g := moveNodes H shift (g st1)\<rparr>;
          nodeRadius' = radius / 80;
          arrowHeight' = nodeRadius' / 2;
          st3 = st2\<lparr>nodeRadius := nodeRadius',
                   arrowHeight := arrowHeight',
                   arrowWidth := arrowHeight' / 2,
                   edgeThickness := nodeRadius' / 7,
                   edgeOffset := nodeRadius' + arrowHeight',
                   navigation := (Point 0 0 0, radius)\<rparr>;
          st4 = st3\<lparr>g := update (g st3)\<rparr>
      in if layoutWasRunning then resumeLayout st4 else st4)"

text \<open>\<^verbatim>\<open>Mycelia::resetLayout(bool watch)\<close>, as compiled without \<^verbatim>\<open>__CUDA__\<close>. The
  static button is the toggle of index 0 in the layout radio box.\<close>

definition staticButton :: "Mycelia \<Rightarrow> bool" where
  "staticButton st = (layoutRadioBox st = 0)"

definition resetLayout :: "Headers \<Rightarrow> bool \<Rightarrow> Mycelia \<Rightarrow> Mycelia" where
  "resetLayout H watch st =
     (let st1 = (stopLayout st)\<lparr>bundleButton := False\<rparr>;
          st2 = (if staticButton st1 then setLayoutType H (LAYOUT_STATIC H) st1
                 else setLayoutType H (LAYOUT_DYNAMIC H) st1)
      in if skipLayout st2 \<or> getNodeCount (g st2) = 0 then st2
         else
           let st3 = st2\<lparr>g := clearVelocities H (randomizePositions H 100 (g st2))\<rparr>;
               st4 = (if watch then resetNavigationCallback H st3 else st3)
           in startLayout st4)"

text \<open>\<^verbatim>\<open>Mycelia::generatorCallback\<close>. \<^verbatim>\<open>g->clear()\<close> and \<^verbatim>\<open>generator->generate()\<close>
  change the graph only; the graphs they leave are arguments.\<close>

definition generatorCallback :: "Headers \<Rightarrow> Graph \<Rightarrow> Graph \<Rightarrow> Mycelia \<Rightarrow> Mycelia" where
  "generatorCallback H cleared generated st =
     (let st1 = st\<lparr>g := cleared\<rparr>;
          st2 = setLayoutType H (LAYOUT_DYNAMIC H) st1;
          st3 = st2\<lparr>g := generated\<rparr>
      in resumeLayout st3)"

section \<open>Drawing\<close>

text \<open>
  A material is one of the four lookups of \<^verbatim>\<open>Graph\<close> the drawing code binds. What
  the drawing functions send to OpenGL is a list of \<open>gl\<close> values, one per quadric,
  list call or helper call of the source. \<open>EdgePrimitive\<close> is the whole of one call of
  the seven-argument \<^verbatim>\<open>drawEdge\<close>: the material bound, the translation to the source
  point, the rotation from \<^verbatim>\<open>zVector\<close> onto the edge vector about the normal vector,
  the translation by \<^verbatim>\<open>sourceOffset\<close> along the edge, the cylinder of radius
  \<^verbatim>\<open>edgeThickness\<close> and height \<^verbatim>\<open>targetOffset\<close>, and whether the arrow list is
  called at its far end.
\<close>

datatype Material =
    NodeMaterialFromId int
  | EdgeMaterialFromId int
  | NodeMaterial int
  | EdgeMaterial int

datatype gl =
    Sphere Scalar
  | ArrowCone Scalar Scalar
  | ArrowDisk Scalar
  | SetMaterial Material
  | EdgePrimitive (edgeMaterial: Material) (edgeSource: Point) (edgeVector: Vector)
      (normalVector: Vector) (sourceOffset: Scalar) (cylinderRadius: Scalar)
      (cylinderLength: Scalar) (hasArrow: bool)
  | ShapeNode Material Point Scalar
  | TextureNode nat Point Scalar Scalar
  | Logo
  | NodeLabels
  | EdgeLabels

text \<open>\<^verbatim>\<open>MyceliaDataItem\<close> (\<^verbatim>\<open>dataitem.hpp\<close>): the three display lists, the version the
  graph list was compiled from, and the texture table (\<^verbatim>\<open>getTextureId\<close> gives the
  texture id, 0 when there is none, and the image's width and height).\<close>

record MyceliaDataItem =
  graphListVersion :: int
  nodeList :: "gl list"
  arrowList :: "gl list"
  graphList :: "gl list"
  getTextureId :: "string \<Rightarrow> nat \<times> Scalar \<times> Scalar"

definition isSelectedComponent :: "Mycelia \<Rightarrow> int \<Rightarrow> bool" where
  "isSelectedComponent st node =
     (if componentButton st
      then getNodeComponent (gCopy st) node = getNodeComponent (gCopy st) (selectedNode st)
      else True)"

text \<open>The seven-argument \<^verbatim>\<open>Mycelia::drawEdge\<close>.\<close>

definition drawEdge :: "Mycelia \<Rightarrow> Point \<Rightarrow> Point \<Rightarrow> Material \<Rightarrow> Scalar \<Rightarrow> bool \<Rightarrow> bool \<Rightarrow> gl" where
  "drawEdge st source' target' material' edgeThickness' drawArrow isBidirectional' =
     (let edgeVector' = diff target' source';
          normalVector' = cross edgeVector' (zVector st);
          length' = mag edgeVector';
          sourceOffset0 = 0;
          targetOffset0 = (if drawArrow then length' - edgeOffset st else length');
          (sourceOffset', targetOffset') =
            (if isBidirectional' \<and> drawArrow
             then (edgeOffset st, length' - 2 * edgeOffset st)
             else (sourceOffset0, targetOffset0))
      in EdgePrimitive material' source' edgeVector' normalVector' sourceOffset'
           edgeThickness' targetOffset' drawArrow)"

text \<open>\<^verbatim>\<open>Mycelia::drawEdge(const Edge&, ...)\<close>.\<close>

definition drawEdge_Edge :: "Mycelia \<Rightarrow> Edge \<Rightarrow> gl" where
  "drawEdge_Edge st e =
     drawEdge st (getNodePosition (gCopy st) (source e)) (getNodePosition (gCopy st) (target e))
       (EdgeMaterialFromId (material e)) (edgeThickness st * weight e) True
       (isBidirectional (gCopy st) (source e) (target e))"

text \<open>
  \<^verbatim>\<open>Mycelia::drawEdges\<close>. The table \<^verbatim>\<open>bool drawn[1000][1000]\<close> is the set of its
  cells that hold \<^verbatim>\<open>true\<close>; a cell exists for indices from 0 to 999. The table is read
  for every edge that passes the component filter, before the test of the bundle button,
  and the source does not check the indices: an access outside the table is the result
  \<open>OutOfBounds\<close>.
\<close>

definition inTable :: "int \<Rightarrow> int \<Rightarrow> bool" where
  "inTable i j = (0 \<le> i \<and> i < 1000 \<and> 0 \<le> j \<and> j < 1000)"

fun drawEdges_loop :: "Mycelia \<Rightarrow> int list \<Rightarrow> (int \<times> int) set \<Rightarrow> error + gl list" where
  "drawEdges_loop st [] drawn = Inr []"
| "drawEdges_loop st (edge # rest) drawn =
     (let e = getEdge (gCopy st) edge
      in if \<not> isSelectedComponent st (source e) then drawEdges_loop st rest drawn
         else if \<not> inTable (source e) (target e) then Inl OutOfBounds
         else if (source e, target e) \<in> drawn then drawEdges_loop st rest drawn
         else if bundleButton st then
           (let material' = EdgeMaterial edge;
                width = edgeThickness st * weight e;
                segments = map (\<lambda>segment.
                    drawEdge st (getSegment st edge segment) (getSegment st edge (segment + 1))
                      material' width False False) [0..getSegmentCount st]
            in case drawEdges_loop st rest drawn of
                 Inl err \<Rightarrow> Inl err
               | Inr out \<Rightarrow> Inr (segments @ out))
         else
           (case drawEdges_loop st rest (insert (source e, target e) drawn) of
              Inl err \<Rightarrow> Inl err
            | Inr out \<Rightarrow> Inr (drawEdge_Edge st e # out)))"

definition drawEdges :: "Mycelia \<Rightarrow> error + gl list" where
  "drawEdges st = drawEdges_loop st (edges (gCopy st)) {}"

text \<open>Nodes. \<^verbatim>\<open>drawTextureNode\<close> returns false (here \<open>None\<close>) when the image has no
  texture; the extent of the quad it draws is computed from the image's width and
  height and from \<^verbatim>\<open>nodeRadius\<close>.\<close>

definition drawTextureNode :: "Mycelia \<Rightarrow> MyceliaDataItem \<Rightarrow> int \<Rightarrow> gl option" where
  "drawTextureNode st dataItem node =
     (let (imageId, W, H') = getTextureId dataItem (getNodeImagePath (gCopy st) node)
      in if imageId = 0 then None
         else Some (TextureNode imageId (getNodePosition (gCopy st) node) W H'))"

definition drawShapeNode :: "Headers \<Rightarrow> Mycelia \<Rightarrow> int \<Rightarrow> gl" where
  "drawShapeNode H st node =
     ShapeNode
       (if node = selectedNode st then NodeMaterialFromId (MATERIAL_SELECTED H)
        else if node = previousNode st then NodeMaterialFromId (MATERIAL_SELECTED_PREVIOUS H)
        else NodeMaterial node)
       (getNodePosition (gCopy st) node) (getNodeSize (gCopy st) node)"

definition drawNode :: "Headers \<Rightarrow> Mycelia \<Rightarrow> MyceliaDataItem \<Rightarrow> int \<Rightarrow> gl list" where
  "drawNode H st dataItem node =
     (let type = getNodeType (gCopy st) node;
          texture = (if type = ''image'' then drawTextureNode st dataItem node else None);
          success = (texture \<noteq> None)
      in (case texture of None \<Rightarrow> [] | Some t \<Rightarrow> [t]) @
         (if type = ''shape'' \<or> \<not> success then [drawShapeNode H st node] else []))"

definition drawNodes :: "Headers \<Rightarrow> Mycelia \<Rightarrow> MyceliaDataItem \<Rightarrow> string \<Rightarrow> gl list" where
  "drawNodes H st dataItem filter' =
     concat (map (\<lambda>node.
         if \<not> isSelectedComponent st node then []
         else if getNodeType (gCopy st) node \<noteq> filter' then drawNode H st dataItem node
         else [])
       (nodes (gCopy st)))"

text \<open>\<^verbatim>\<open>Mycelia::buildGraphList\<close>: the version is written first, then the three lists
  are compiled anew.\<close>

definition buildGraphList :: "Headers \<Rightarrow> Mycelia \<Rightarrow> MyceliaDataItem \<Rightarrow> error + MyceliaDataItem" where
  "buildGraphList H st dataItem =
     (let d1 = dataItem\<lparr>graphListVersion := getVersion (gCopy st)\<rparr>;
          d2 = d1\<lparr>nodeList := [Sphere (nodeRadius st)]\<rparr>;
          d3 = d2\<lparr>arrowList := [ArrowCone (arrowWidth st) (arrowHeight st), ArrowDisk (arrowWidth st)]\<rparr>;
          ns = (if getTextureNodeMode (gCopy st) = ''align''
                then drawNodes H st d3 ''image''
                else drawNodes H st d3 (drawNodes_default_filter H))
      in case drawEdges st of
           Inl err \<Rightarrow> Inl err
         | Inr es \<Rightarrow> Inr (d3\<lparr>graphList := ns @ es\<rparr>))"

text \<open>
  The overlays. \<^verbatim>\<open>drawShortestPath\<close> walks the predecessor vector from the selected
  node; its loop has no bound of its own, so the model counts the entries into the loop
  body with fuel and is \<open>None\<close> when the fuel does not suffice. Reading the vector at an
  index it does not have is \<open>OutOfBounds\<close>. The two-argument constructor of \<^verbatim>\<open>Edge\<close>
  leaves weight and material at their defaults.
\<close>

fun drawShortestPath_loop :: "Headers \<Rightarrow> Mycelia \<Rightarrow> MyceliaDataItem \<Rightarrow> nat \<Rightarrow> int \<Rightarrow> (error + gl list) option" where
  "drawShortestPath_loop H st dataItem 0 i =
     (if i = previousNode st then Some (Inr []) else None)"
| "drawShortestPath_loop H st dataItem (Suc fuel) i =
     (if i = previousNode st then Some (Inr [])
      else if i < 0 \<or> int (length (predecessorVector st)) \<le> i then Some (Inl OutOfBounds)
      else if i = predecessorVector st ! nat i then Some (Inr [])
      else
        (let e = \<lparr>source = i, target = predecessorVector st ! nat i,
                  weight = Edge_default_weight H, material = MATERIAL_SELECTED H\<rparr>
         in case drawShortestPath_loop H st dataItem fuel (predecessorVector st ! nat i) of
              None \<Rightarrow> None
            | Some (Inl err) \<Rightarrow> Some (Inl err)
            | Some (Inr out) \<Rightarrow> Some (Inr (drawNode H st dataItem i @ [drawEdge_Edge st e] @ out))))"

definition drawShortestPath :: "Headers \<Rightarrow> nat \<Rightarrow> Mycelia \<Rightarrow> MyceliaDataItem \<Rightarrow> (error + gl list) option" where
  "drawShortestPath H fuel st dataItem =
     (case drawShortestPath_loop H st dataItem fuel (selectedNode st) of
        None \<Rightarrow> None
      | Some (Inl err) \<Rightarrow> Some (Inl err)
      | Some (Inr out) \<Rightarrow> Some (Inr (SetMaterial (NodeMaterialFromId (MATERIAL_SELECTED H)) # out)))"

definition drawSpanningTree :: "Headers \<Rightarrow> Mycelia \<Rightarrow> MyceliaDataItem \<Rightarrow> gl list" where
  "drawSpanningTree H st dataItem =
     SetMaterial (NodeMaterialFromId (MATERIAL_SELECTED H)) #
     concat (map (\<lambda>i.
         drawNode H st dataItem (int i) @
         [drawEdge_Edge st \<lparr>source = int i, target = predecessorVector st ! i,
                            weight = Edge_default_weight H, material = Edge_default_material H\<rparr>])
       [0..<length (predecessorVector st)])"

text \<open>\<^verbatim>\<open>Mycelia::display\<close>. The label passes draw text and are one value each.\<close>

definition display :: "Headers \<Rightarrow> nat \<Rightarrow> Mycelia \<Rightarrow> MyceliaDataItem \<Rightarrow> (error + MyceliaDataItem \<times> gl list) option" where
  "display H fuel st dataItem =
     (if showingLogo st then Some (Inr (dataItem, [Logo]))
      else
        case (if graphListVersion dataItem \<noteq> getVersion (gCopy st)
              then buildGraphList H st dataItem else Inr dataItem) of
          Inl err \<Rightarrow> Some (Inl err)
        | Inr d \<Rightarrow>
            if spanningTreeButton st then Some (Inr (d, drawSpanningTree H st d))
            else
              (let out = graphList d @
                     (if getTextureNodeMode (gCopy st) = ''align''
                      then drawNodes H st d ''shape'' else []) @
                     [NodeLabels, EdgeLabels]
               in if shortestPathButton st then
                    (case drawShortestPath H fuel st d of
                       None \<Rightarrow> None
                     | Some (Inl err) \<Rightarrow> Some (Inl err)
                     | Some (Inr path) \<Rightarrow> Some (Inr (d, out @ path)))
                  else Some (Inr (d, out))))"

section \<open>Vocabulary of the properties\<close>

text \<open>The ordered pair of endpoints of an edge, and the list that keeps, of the elements
  with the same key, the first one only.\<close>

definition endpoints :: "Edge \<Rightarrow> int \<times> int" where
  "endpoints e = (source e, target e)"

fun keepFirst :: "('a \<Rightarrow> 'k) \<Rightarrow> 'a list \<Rightarrow> 'a list" where
  "keepFirst key [] = []"
| "keepFirst key (x # xs) = x # keepFirst key (filter (\<lambda>y. key y \<noteq> key x) xs)"

text \<open>The edges of the graph copy in iteration order, and those of them that pass the
  component filter.\<close>

definition edgeList :: "Mycelia \<Rightarrow> Edge list" where
  "edgeList st = map (getEdge (gCopy st)) (edges (gCopy st))"

definition visibleEdges :: "Mycelia \<Rightarrow> Edge list" where
  "visibleEdges st = filter (\<lambda>e. isSelectedComponent st (source e)) (edgeList st)"

text \<open>At most one of the static layout, the dynamic layout and the edge bundler is
  running; and a running layout is the one \<^verbatim>\<open>layout\<close> points to.\<close>

definition atMostOneRunning :: "Mycelia \<Rightarrow> bool" where
  "atMostOneRunning st =
     (length (filter (\<lambda>l. l = Running) [staticLayout st, dynamicLayout st, edgeBundler st]) \<le> 1)"

definition runningIsCurrent :: "Mycelia \<Rightarrow> bool" where
  "runningIsCurrent st =
     ((staticLayout st = Running \<longrightarrow> layout st = StaticLayout) \<and>
      (dynamicLayout st = Running \<longrightarrow> layout st = DynamicLayout))"

definition lifecycleInvariant :: "Mycelia \<Rightarrow> bool" where
  "lifecycleInvariant st = (atMostOneRunning st \<and> runningIsCurrent st)"

text \<open>
  The states the application reaches. The constructor leaves the three objects stopped
  and \<^verbatim>\<open>layout\<close> at the static layout. The steps are the operations of
  \<^verbatim>\<open>mycelia.cpp\<close> that stop or start a layout or the bundler, except the bare
  \<^verbatim>\<open>startLayout\<close> and \<^verbatim>\<open>resumeLayout\<close>; the completion of the static layout,
  which stops itself; and any change of the graph, of the skip flag and of the layout
  radio box made from outside.
\<close>

inductive reachable :: "Headers \<Rightarrow> Mycelia \<Rightarrow> bool" for H :: Headers where
  constructed:
    "staticLayout st = Stopped \<Longrightarrow> dynamicLayout st = Stopped \<Longrightarrow> edgeBundler st = Stopped \<Longrightarrow>
     layout st = StaticLayout \<Longrightarrow> reachable H st"
| by_setLayoutType: "reachable H st \<Longrightarrow> reachable H (setLayoutType H type st)"
| by_bundleCallback: "reachable H st \<Longrightarrow> reachable H (bundleCallback set' st)"
| by_resetLayout: "reachable H st \<Longrightarrow> reachable H (resetLayout H watch st)"
| by_resetNavigationCallback: "reachable H st \<Longrightarrow> reachable H (resetNavigationCallback H st)"
| by_generatorCallback: "reachable H st \<Longrightarrow> reachable H (generatorCallback H cleared generated st)"
| by_stopLayout: "reachable H st \<Longrightarrow> reachable H (stopLayout st)"
| by_completion: "reachable H st \<Longrightarrow> reachable H (st\<lparr>staticLayout := Stopped\<rparr>)"
| by_environment:
    "reachable H st \<Longrightarrow> reachable H (st\<lparr>g := gr, skipLayout := skip, layoutRadioBox := box\<rparr>)"

text \<open>
  A predecessor vector as a shortest-path or spanning-tree computation leaves it: every
  entry is the index of a node, and following the predecessors from any node arrives at
  a node that is its own predecessor.
\<close>

definition predecessor :: "int list \<Rightarrow> int \<Rightarrow> int" where
  "predecessor pv i = pv ! nat i"

definition isNode :: "int list \<Rightarrow> int \<Rightarrow> bool" where
  "isNode pv i = (0 \<le> i \<and> i < int (length pv))"

definition predecessorTree :: "int list \<Rightarrow> bool" where
  "predecessorTree pv =
     ((\<forall>i. isNode pv i \<longrightarrow> isNode pv (predecessor pv i)) \<and>
      (\<forall>i. isNode pv i \<longrightarrow> (\<exists>k. predecessor pv ((predecessor pv ^^ k) i) = (predecessor pv ^^ k) i)))"

section \<open>Example states\<close>

definition exampleHeaders :: Headers where
  "exampleHeaders =
     \<lparr>SELECTION_NONE = - 1, MATERIAL_SELECTED = - 1, MATERIAL_SELECTED_PREVIOUS = - 2,
      LAYOUT_STATIC = 0, LAYOUT_DYNAMIC = 1, drawNodes_default_filter = [],
      Edge_default_weight = 1, Edge_default_material = 0,
      locate = (\<lambda>gr. (Point 0 0 0, 80)), moveNodes = (\<lambda>shift gr. gr),
      randomizePositions = (\<lambda>n gr. gr), clearVelocities = (\<lambda>gr. gr),
      getShortestPath = (\<lambda>a b gr. [])\<rparr>"

text \<open>A graph with the given nodes, positions and edges; the edge identifiers count
  from 0.\<close>

definition exampleGraph :: "int list \<Rightarrow> (int \<Rightarrow> Point) \<Rightarrow> Edge list \<Rightarrow> Graph" where
  "exampleGraph ns pos es =
     \<lparr>nodes = ns, edges = map int [0..<length es], getEdge = (\<lambda>i. es ! nat i),
      getNodePosition = pos, getNodeComponent = (\<lambda>n. 0), getNodeType = (\<lambda>n. ''shape''),
      getNodeImagePath = (\<lambda>n. []), getNodeSize = (\<lambda>n. 1), getTextureNodeMode = [],
      getVersion = 1\<rparr>"

text \<open>A state around a graph: nothing runs, nothing is selected, every toggle is off,
  the node radius is 1 and the cone angle 0.01.\<close>

definition exampleState :: "Graph \<Rightarrow> Mycelia" where
  "exampleState gr =
     \<lparr>g = gr, gCopy = gr, layout = StaticLayout, staticLayout = Stopped,
      dynamicLayout = Stopped, edgeBundler = Stopped, getSegmentCount = 0,
      getSegment = (\<lambda>e s. Point 0 0 0), skipLayout = False, selectedNode = - 1,
      previousNode = - 1, predecessorVector = [], coneAngle = 1 / 100, nodeRadius = 1,
      arrowHeight = 1 / 2, arrowWidth = 1 / 4, edgeThickness = 1 / 7, edgeOffset = 3 / 2,
      zVector = Vector 0 0 1, showingLogo = False, bundleButton = False,
      componentButton = False, nodeInfoButton = False, shortestPathButton = False,
      spanningTreeButton = False, layoutRadioBox = 0, layoutWindow = False,
      nodeWindow = None, navigation = (Point 0 0 0, 80)\<rparr>"

text \<open>The state with the cone angle 1/128, and the ray from the origin along the
  first axis.\<close>

definition exampleConeState :: "Graph \<Rightarrow> Mycelia" where
  "exampleConeState gr = (exampleState gr)\<lparr>coneAngle := 1 / 128\<rparr>"

definition exampleRay :: Ray where
  "exampleRay = \<lparr>getOrigin = Point 0 0 0, getDirection = Vector 1 0 0\<rparr>"

definition exampleDataItem :: MyceliaDataItem where
  "exampleDataItem =
     \<lparr>graphListVersion = 0, nodeList = [], arrowList = [], graphList = [],
      getTextureId = (\<lambda>path. (0, 1, 1))\<rparr>"

section \<open>Helper lemmas\<close>

lemma exampleState_simps:
  "g (exampleState gr) = gr" "gCopy (exampleState gr) = gr"
  "nodeRadius (exampleState gr) = 1" "coneAngle (exampleState gr) = 1 / 100"
  "componentButton (exampleState gr) = False" "bundleButton (exampleState gr) = False"
  "edgeThickness (exampleState gr) = 1 / 7" "edgeOffset (exampleState gr) = 3 / 2"
  "zVector (exampleState gr) = Vector 0 0 1" "showingLogo (exampleState gr) = False"
  "staticLayout (exampleState gr) = Stopped" "dynamicLayout (exampleState gr) = Stopped"
  "edgeBundler (exampleState gr) = Stopped" "layout (exampleState gr) = StaticLayout"
  "skipLayout (exampleState gr) = False" "selectedNode (exampleState gr) = - 1"
  "previousNode (exampleState gr) = - 1" "predecessorVector (exampleState gr) = []"
  "shortestPathButton (exampleState gr) = False" "spanningTreeButton (exampleState gr) = False"
  "nodeInfoButton (exampleState gr) = False" "layoutRadioBox (exampleState gr) = 0"
  by (simp_all add: exampleState_def)

lemma exampleGraph_simps:
  "nodes (exampleGraph ns pos es) = ns" "getNodePosition (exampleGraph ns pos es) = pos"
  "edges (exampleGraph ns pos es) = map int [0..<length es]"
  "getEdge (exampleGraph ns pos es) = (\<lambda>i. es ! nat i)"
  "getVersion (exampleGraph ns pos es) = 1"
  "getTextureNodeMode (exampleGraph ns pos es) = []"
  "getNodeType (exampleGraph ns pos es) = (\<lambda>n. ''shape'')"
  "getNodeSize (exampleGraph ns pos es) = (\<lambda>n. 1)"
  by (simp_all add: exampleGraph_def)

section \<open>Rounding\<close>

lemma expo_eqI:
  assumes "2 powi e \<le> \<bar>x\<bar>" and "\<bar>x\<bar> < 2 powi (e + 1)"
  shows "expo x = e"
proof -
  have "(0::real) < 2 powi e"
    by (simp add: zero_less_power_int)
  with assms(1) have pos: "0 < \<bar>x\<bar>"
    by linarith
  have p: "(2::real) powi k = 2 powr (of_int k)" for k
    by (simp add: powr_real_of_int')
  have "of_int e \<le> log 2 \<bar>x\<bar>"
    using assms(1) pos by (simp add: le_log_iff p)
  moreover have "log 2 \<bar>x\<bar> < of_int e + 1"
    using assms(2) pos by (simp add: log_less_iff p)
  ultimately show ?thesis
    unfolding expo_def by (rule floor_unique)
qed

lemma roundTo_bracket:
  assumes "2 powi e0 \<le> \<bar>x\<bar>" and "\<bar>x\<bar> < 2 powi (e0 + 1)"
  shows "roundTo p emin emax x =
     (let e = max e0 emin;
          u = 2 powi (e - int p + 1);
          r = of_int (rne (x / u)) * u
      in if 2 powi (emax + 1) \<le> \<bar>r\<bar> then (if 0 < r then PlusInf else MinusInf) else Fin r)"
proof -
  have e: "expo x = e0" using assms by (rule expo_eqI)
  have "(0::real) < 2 powi e0"
    by (simp add: zero_less_power_int)
  with assms(1) have "0 < \<bar>x\<bar>"
    by linarith
  then have "x \<noteq> 0"
    by simp
  with e show ?thesis by (simp add: roundTo_def)
qed

lemma roundDouble_zero: "roundDouble 0 = Fin 0"
  by (simp add: roundDouble_def roundTo_def)

lemma roundFloat_zero: "roundFloat 0 = Fin 0"
  by (simp add: roundFloat_def roundTo_def)

text \<open>The roundings that the examples below go through, each checked against the
  definition at the exponent of its argument.\<close>

lemma roundDouble_value_1: "roundDouble 1 = Fin 1"
  unfolding roundDouble_def
  by (subst roundTo_bracket [where ?e0.0 = "0"]) (simp_all add: rne_def Let_def)

lemma roundDouble_value_2: "roundDouble (1 / 2) = Fin (1 / 2)"
  unfolding roundDouble_def
  by (subst roundTo_bracket [where ?e0.0 = "- 1"]) (simp_all add: rne_def Let_def)

lemma roundDouble_value_3: "roundDouble (1 / 4) = Fin (1 / 4)"
  unfolding roundDouble_def
  by (subst roundTo_bracket [where ?e0.0 = "- 2"]) (simp_all add: rne_def Let_def)

lemma roundDouble_value_4: "roundDouble 2 = Fin 2"
  unfolding roundDouble_def
  by (subst roundTo_bracket [where ?e0.0 = "1"]) (simp_all add: rne_def Let_def)

lemma roundDouble_value_5: "roundDouble 4 = Fin 4"
  unfolding roundDouble_def
  by (subst roundTo_bracket [where ?e0.0 = "2"]) (simp_all add: rne_def Let_def)

lemma roundDouble_value_6: "roundDouble (1073741823 / 1073741824) = Fin (1073741823 / 1073741824)"
  unfolding roundDouble_def
  by (subst roundTo_bracket [where ?e0.0 = "- 1"]) (simp_all add: rne_def Let_def)

lemma roundDouble_value_7: "roundDouble (1152921502459363329 / 1152921504606846976) = Fin (536870911 / 536870912)"
  unfolding roundDouble_def
  by (subst roundTo_bracket [where ?e0.0 = "- 1"]) (simp_all add: rne_def Let_def)

lemma roundDouble_value_8: "roundDouble (536870911 / 536870912) = Fin (536870911 / 536870912)"
  unfolding roundDouble_def
  by (subst roundTo_bracket [where ?e0.0 = "- 1"]) (simp_all add: rne_def Let_def)

lemma roundDouble_value_9: "roundDouble (1 / 16384) = Fin (1 / 16384)"
  unfolding roundDouble_def
  by (subst roundTo_bracket [where ?e0.0 = "- 14"]) (simp_all add: rne_def Let_def)

lemma roundDouble_value_10: "roundDouble 5 = Fin 5"
  unfolding roundDouble_def
  by (subst roundTo_bracket [where ?e0.0 = "2"]) (simp_all add: rne_def Let_def)

lemma roundDouble_value_11: "roundDouble (- 1) = Fin (- 1)"
  unfolding roundDouble_def
  by (subst roundTo_bracket [where ?e0.0 = "0"]) (simp_all add: rne_def Let_def)

lemma roundDouble_value_12: "roundDouble 340282346638528859811704183484516925440 = Fin 340282346638528859811704183484516925440"
  unfolding roundDouble_def
  by (subst roundTo_bracket [where ?e0.0 = "127"]) (simp_all add: rne_def Let_def)

lemma roundDouble_value_13: "roundDouble 18446744073709551616 = Fin 18446744073709551616"
  unfolding roundDouble_def
  by (subst roundTo_bracket [where ?e0.0 = "64"]) (simp_all add: rne_def Let_def)

lemma roundDouble_value_14: "roundDouble 9223372036854775808 = Fin 9223372036854775808"
  unfolding roundDouble_def
  by (subst roundTo_bracket [where ?e0.0 = "63"]) (simp_all add: rne_def Let_def)

lemma roundDouble_value_15: "roundDouble (- 9223372036854775808) = Fin (- 9223372036854775808)"
  unfolding roundDouble_def
  by (subst roundTo_bracket [where ?e0.0 = "63"]) (simp_all add: rne_def Let_def)

lemma roundDouble_value_16: "roundDouble 85070591730234615865843651857942052864 = Fin 85070591730234615865843651857942052864"
  unfolding roundDouble_def
  by (subst roundTo_bracket [where ?e0.0 = "126"]) (simp_all add: rne_def Let_def)

lemma roundDouble_value_17: "roundDouble (1 / 1267650600228229401496703205376) = Fin (1 / 1267650600228229401496703205376)"
  unfolding roundDouble_def
  by (subst roundTo_bracket [where ?e0.0 = "- 100"]) (simp_all add: rne_def Let_def)

lemma roundDouble_value_18: "roundDouble 340282366920938463463374607431768211456 = Fin 340282366920938463463374607431768211456"
  unfolding roundDouble_def
  by (subst roundTo_bracket [where ?e0.0 = "128"]) (simp_all add: rne_def Let_def)

lemma roundFloat_value_1: "roundFloat 1 = Fin 1"
  unfolding roundFloat_def
  by (subst roundTo_bracket [where ?e0.0 = "0"]) (simp_all add: rne_def Let_def)

lemma roundFloat_value_2: "roundFloat (1 / 4) = Fin (1 / 4)"
  unfolding roundFloat_def
  by (subst roundTo_bracket [where ?e0.0 = "- 2"]) (simp_all add: rne_def Let_def)

lemma roundFloat_value_3: "roundFloat 4 = Fin 4"
  unfolding roundFloat_def
  by (subst roundTo_bracket [where ?e0.0 = "2"]) (simp_all add: rne_def Let_def)

lemma roundFloat_value_4: "roundFloat (536870911 / 536870912) = Fin 1"
  unfolding roundFloat_def
  by (subst roundTo_bracket [where ?e0.0 = "- 1"]) (simp_all add: rne_def Let_def)

lemma roundFloat_value_5: "roundFloat (1 / 16384) = Fin (1 / 16384)"
  unfolding roundFloat_def
  by (subst roundTo_bracket [where ?e0.0 = "- 14"]) (simp_all add: rne_def Let_def)

lemma roundFloat_value_6: "roundFloat 5 = Fin 5"
  unfolding roundFloat_def
  by (subst roundTo_bracket [where ?e0.0 = "2"]) (simp_all add: rne_def Let_def)

lemma roundFloat_value_7: "roundFloat 25 = Fin 25"
  unfolding roundFloat_def
  by (subst roundTo_bracket [where ?e0.0 = "4"]) (simp_all add: rne_def Let_def)

lemma roundFloat_value_8: "roundFloat (1 / 25) = Fin (5368709 / 134217728)"
  unfolding roundFloat_def
  by (subst roundTo_bracket [where ?e0.0 = "- 5"]) (simp_all add: rne_def Let_def)

lemma roundFloat_value_9: "roundFloat 340282346638528859811704183484516925440 = Fin 340282346638528859811704183484516925440"
  unfolding roundFloat_def
  by (subst roundTo_bracket [where ?e0.0 = "127"]) (simp_all add: rne_def Let_def)

lemma roundFloat_value_10: "roundFloat 18446744073709551616 = Fin 18446744073709551616"
  unfolding roundFloat_def
  by (subst roundTo_bracket [where ?e0.0 = "64"]) (simp_all add: rne_def Let_def)

lemma roundFloat_value_11: "roundFloat 85070591730234615865843651857942052864 = Fin 85070591730234615865843651857942052864"
  unfolding roundFloat_def
  by (subst roundTo_bracket [where ?e0.0 = "126"]) (simp_all add: rne_def Let_def)

lemma roundFloat_value_12: "roundFloat 340282366920938463463374607431768211456 = PlusInf"
  unfolding roundFloat_def
  by (subst roundTo_bracket [where ?e0.0 = "128"]) (simp_all add: rne_def Let_def)

lemma roundFloat_value_13: "roundFloat (1 / 1267650600228229401496703205376) = Fin (1 / 1267650600228229401496703205376)"
  unfolding roundFloat_def
  by (subst roundTo_bracket [where ?e0.0 = "- 100"]) (simp_all add: rne_def Let_def)

lemma roundFloat_value_14: "roundFloat (1 / 1606938044258990275541962092341162602522202993782792835301376) = Fin 0"
  unfolding roundFloat_def
  by (subst roundTo_bracket [where ?e0.0 = "- 200"]) (simp_all add: rne_def Let_def)

lemmas round_values = roundDouble_zero roundFloat_zero
  roundDouble_value_1 roundDouble_value_2 roundDouble_value_3 roundDouble_value_4
  roundDouble_value_5 roundDouble_value_6 roundDouble_value_7 roundDouble_value_8
  roundDouble_value_9 roundDouble_value_10 roundDouble_value_11 roundDouble_value_12
  roundDouble_value_13 roundDouble_value_14 roundDouble_value_15 roundDouble_value_16
  roundDouble_value_17 roundDouble_value_18 roundFloat_value_1 roundFloat_value_2
  roundFloat_value_3 roundFloat_value_4 roundFloat_value_5 roundFloat_value_6
  roundFloat_value_7 roundFloat_value_8 roundFloat_value_9 roundFloat_value_10
  roundFloat_value_11 roundFloat_value_12 roundFloat_value_13 roundFloat_value_14

section \<open>The selection loops\<close>

lemma flt_trans: "flt a b \<Longrightarrow> flt b c \<Longrightarrow> flt a c"
  by (cases a; cases b; cases c) auto

lemma flt_irrefl: "\<not> flt a a"
  by (cases a) auto

lemma roundTo_notNegative:
  assumes "0 \<le> x"
  shows "notNegative (roundTo p emin emax x)"
proof (cases "x = 0")
  case True
  then show ?thesis by (simp add: roundTo_def notNegative_def)
next
  case False
  define u :: real where "u = 2 powi (max (expo x) emin - int p + 1)"
  define r where "r = of_int (rne (x / u)) * u"
  have u: "0 < u" by (simp add: u_def zero_less_power_int)
  with assms have "0 \<le> x / u" by simp
  then have "0 \<le> \<lfloor>x / u\<rfloor>" by simp
  then have "0 \<le> rne (x / u)" by (auto simp: rne_def Let_def)
  with u have r: "0 \<le> r" by (simp add: r_def)
  have pos: "0 < r" if "2 powi (emax + 1) \<le> \<bar>r\<bar>"
  proof -
    have "(0::real) < 2 powi (emax + 1)" by (simp add: zero_less_power_int)
    with that r show ?thesis by linarith
  qed
  have "roundTo p emin emax x =
      (if 2 powi (emax + 1) \<le> \<bar>r\<bar> then (if 0 < r then PlusInf else MinusInf) else Fin r)"
    using False by (simp add: roundTo_def Let_def u_def r_def)
  with r pos show ?thesis by (auto simp: notNegative_def)
qed

lemma fmul_self_notNegative:
  assumes "\<And>x. 0 \<le> x \<Longrightarrow> notNegative (rnd x)"
  shows "notNegative (fmul rnd a a)"
  by (cases a) (simp_all add: notNegative_def signed_def assms [unfolded notNegative_def])

lemma fadd_notNegative:
  assumes "\<And>x. 0 \<le> x \<Longrightarrow> notNegative (rnd x)" and "notNegative a" and "notNegative b"
  shows "notNegative (fadd rnd a b)"
  using assms(2,3) by (cases a; cases b) (simp_all add: notNegative_def assms(1) [unfolded notNegative_def])

lemma toFloat_notNegative: "notNegative a \<Longrightarrow> notNegative (toFloat a)"
  by (cases a) (auto simp: notNegative_def roundFloat_def intro: roundTo_notNegative [unfolded notNegative_def])

lemma Geometry_sqr_Scalar_notNegative: "notNegative (Geometry_sqr_Scalar v)"
proof (cases v)
  case (ComputedVector a b c)
  have rd: "notNegative (roundDouble x)" if "0 \<le> x" for x
    using that by (simp add: roundDouble_def roundTo_notNegative)
  show ?thesis
    unfolding Geometry_sqr_Scalar_def ComputedVector dot_Scalar.simps
    by (intro fadd_notNegative fmul_self_notNegative rd)
qed

lemma offset2_float_notNegative: "notNegative (offset2_float gr ray n)"
  unfolding offset2_float_def
  by (intro toFloat_notNegative Geometry_sqr_Scalar_notNegative)

lemma selectNode_Point_loop_step:
  "selectNode_Point_loop gr c (n # ns) (res, d0) =
     (if flt (dist2_float gr c n) d0
      then selectNode_Point_loop gr c ns (n, dist2_float gr c n)
      else selectNode_Point_loop gr c ns (res, d0))"
  by (simp add: dist2_float_def Let_def)

lemma selectNode_Point_loop_spec:
  "selectNode_Point_loop gr c ns (res, d0) = (r, d) \<Longrightarrow>
     (if \<exists>n\<in>set ns. flt (dist2_float gr c n) d0
      then r \<in> set ns \<and> d = dist2_float gr c r \<and> flt d d0 \<and>
           (\<forall>m\<in>set ns. \<not> flt (dist2_float gr c m) d)
      else r = res \<and> d = d0)"
proof (induction ns arbitrary: res d0)
  case Nil
  then show ?case by simp
next
  case (Cons n ns)
  let ?dn = "dist2_float gr c n"
  show ?case
  proof (cases "flt ?dn d0")
    case True
    with Cons.prems have run: "selectNode_Point_loop gr c ns (n, ?dn) = (r, d)"
      by (simp only: selectNode_Point_loop_step if_True)
    show ?thesis
    proof (cases "\<exists>m\<in>set ns. flt (dist2_float gr c m) ?dn")
      case better: True
      with Cons.IH [OF run] have r: "r \<in> set ns" "d = dist2_float gr c r" "flt d ?dn"
        and least: "\<forall>m\<in>set ns. \<not> flt (dist2_float gr c m) d"
        by auto
      from r(3) True have "flt d d0" by (rule flt_trans)
      moreover have "\<not> flt ?dn d"
        using r(3) flt_trans flt_irrefl by blast
      ultimately show ?thesis using r least True by auto
    next
      case none: False
      with Cons.IH [OF run] have "r = n" "d = ?dn" by simp_all
      with none True show ?thesis by (auto simp: flt_irrefl)
    qed
  next
    case False
    with Cons.prems have run: "selectNode_Point_loop gr c ns (res, d0) = (r, d)"
      by (simp only: selectNode_Point_loop_step if_False)
    show ?thesis
    proof (cases "\<exists>m\<in>set ns. flt (dist2_float gr c m) d0")
      case True
      with Cons.IH [OF run] have r: "r \<in> set ns" "d = dist2_float gr c r" "flt d d0"
        and least: "\<forall>m\<in>set ns. \<not> flt (dist2_float gr c m) d"
        by auto
      have "\<not> flt ?dn d"
        using r(3) False flt_trans by blast
      with r least True show ?thesis by auto
    next
      case none: False
      with Cons.IH [OF run] have "r = res" "d = d0" by simp_all
      with none False show ?thesis by auto
    qed
  qed
qed

lemma selectNode_Ray_loop_step:
  "selectNode_Ray_loop gr ray c2 (n # ns) (res, lam) =
     (if candidate gr ray c2 lam n
      then selectNode_Ray_loop gr ray c2 ns (n, forward_float gr ray n)
      else selectNode_Ray_loop gr ray c2 ns (res, lam))"
  by (simp add: candidate_def forward_float_def offset2_float_def quotient_float_def Let_def)

lemma candidate_narrow:
  assumes "candidate gr ray c2 lam n"
  shows "candidate gr ray c2 (forward_float gr ray n) m \<longleftrightarrow>
     candidate gr ray c2 lam m \<and> flt (forward_float gr ray m) (forward_float gr ray n)"
  using assms flt_trans by (auto simp: candidate_def)

lemma selectNode_Ray_loop_spec:
  "selectNode_Ray_loop gr ray c2 ns (res, lam) = (r, l) \<Longrightarrow>
     (if \<exists>n\<in>set ns. candidate gr ray c2 lam n
      then r \<in> set ns \<and> candidate gr ray c2 lam r \<and> l = forward_float gr ray r \<and>
           (\<forall>m\<in>set ns. candidate gr ray c2 lam m \<longrightarrow>
              \<not> flt (forward_float gr ray m) (forward_float gr ray r))
      else r = res \<and> l = lam)"
proof (induction ns arbitrary: res lam)
  case Nil
  then show ?case by simp
next
  case (Cons n ns)
  let ?x = "forward_float gr ray n"
  show ?case
  proof (cases "candidate gr ray c2 lam n")
    case True
    with Cons.prems have run: "selectNode_Ray_loop gr ray c2 ns (n, ?x) = (r, l)"
      by (simp only: selectNode_Ray_loop_step if_True)
    note narrow = candidate_narrow [OF True]
    show ?thesis
    proof (cases "\<exists>m\<in>set ns. candidate gr ray c2 ?x m")
      case better: True
      with Cons.IH [OF run] have r: "r \<in> set ns" "candidate gr ray c2 ?x r" "l = forward_float gr ray r"
        and least: "\<forall>m\<in>set ns. candidate gr ray c2 ?x m \<longrightarrow>
              \<not> flt (forward_float gr ray m) (forward_float gr ray r)"
        by auto
      from r(2) narrow have rlam: "candidate gr ray c2 lam r" and rx: "flt (forward_float gr ray r) ?x"
        by auto
      have "\<not> flt (forward_float gr ray m) (forward_float gr ray r)"
        if "m \<in> set (n # ns)" "candidate gr ray c2 lam m" for m
      proof
        assume less: "flt (forward_float gr ray m) (forward_float gr ray r)"
        then have mx: "flt (forward_float gr ray m) ?x" using rx by (rule flt_trans)
        then have "m \<noteq> n" using flt_irrefl by auto
        with that have "m \<in> set ns" by simp
        moreover have "candidate gr ray c2 ?x m" using narrow that(2) mx by simp
        ultimately show False using least less by blast
      qed
      with r rlam True show ?thesis by auto
    next
      case none: False
      with Cons.IH [OF run] have r: "r = n" "l = ?x" by simp_all
      have "\<not> flt (forward_float gr ray m) ?x"
        if "m \<in> set (n # ns)" "candidate gr ray c2 lam m" for m
      proof
        assume less: "flt (forward_float gr ray m) ?x"
        then have "m \<noteq> n" using flt_irrefl by auto
        with that have "m \<in> set ns" by simp
        moreover have "candidate gr ray c2 ?x m" using narrow that(2) less by simp
        ultimately show False using none by blast
      qed
      with r True show ?thesis by auto
    qed
  next
    case False
    with Cons.prems have run: "selectNode_Ray_loop gr ray c2 ns (res, lam) = (r, l)"
      by (simp only: selectNode_Ray_loop_step if_False)
    from Cons.IH [OF run] False show ?thesis
      by (auto split: if_splits)
  qed
qed

lemma zero_divisor_fails:
  assumes "c2 \<noteq> PlusInf" and "Math_sqr_float (forward_float gr ray n) = Fin 0"
  shows "\<not> fle (quotient_float gr ray n) c2"
proof -
  have "notNegative (offset2_float gr ray n)" by (rule offset2_float_notNegative)
  then have "fdiv roundFloat (offset2_float gr ray n) (Fin 0) = NaN \<or>
      fdiv roundFloat (offset2_float gr ray n) (Fin 0) = PlusInf"
    by (cases "offset2_float gr ray n") (auto simp: notNegative_def signed_def)
  then show ?thesis
    using assms by (cases c2) (auto simp: quotient_float_def)
qed

lemma Math_sqr_float_zero: "Math_sqr_float (Fin 0) = Fin 0"
  by (simp add: Math_sqr_float_def roundFloat_zero)

lemma candidate_positive:
  assumes "c2 \<noteq> PlusInf" and "candidate gr ray c2 bound n"
  shows "Math_sqr_float (forward_float gr ray n) \<noteq> Fin 0 \<and> flt (Fin 0) (forward_float gr ray n)"
proof -
  from assms have divisor: "Math_sqr_float (forward_float gr ray n) \<noteq> Fin 0"
    using zero_divisor_fails by (auto simp: candidate_def)
  then have "forward_float gr ray n \<noteq> Fin 0"
    using Math_sqr_float_zero by auto
  moreover from assms(2) have "fge (forward_float gr ray n) (Fin 0)"
    by (simp add: candidate_def)
  ultimately have "flt (Fin 0) (forward_float gr ray n)"
    by (cases "forward_float gr ray n") (auto simp: fge_def)
  with divisor show ?thesis by simp
qed

lemma selectNode_Ray_loop_positive:
  assumes "c2 \<noteq> PlusInf" and "flt (Fin 0) lam"
  shows "flt (Fin 0) (snd (selectNode_Ray_loop gr ray c2 ns (res, lam)))"
proof -
  obtain r l where run: "selectNode_Ray_loop gr ray c2 ns (res, lam) = (r, l)"
    by (cases "selectNode_Ray_loop gr ray c2 ns (res, lam)")
  from selectNode_Ray_loop_spec [OF run] assms candidate_positive [OF assms(1)]
  show ?thesis unfolding run by (auto split: if_splits)
qed

section \<open>Point selection\<close>

text \<open>
  The statement of C3 in exact arithmetic fails. With one node at the origin and node
  radius 1, the query point (1 - 1/1073741824, 0, 0) is nearer than the node radius, but its
  squared distance is rounded to 1.0 when it is stored in \<^verbatim>\<open>float dist2\<close>, the test
  \<^verbatim>\<open>dist2 < minDist2\<close> is false and no node is selected.
\<close>

theorem selectNode_Point_rounding_counterexample:
  "sqrDist (Point (1 - 1 / 2 ^ 30) 0 0) (getNodePosition (exampleGraph [0] (\<lambda>n. Point 0 0 0) []) 0)
     < Math_sqr (nodeRadius (exampleState (exampleGraph [0] (\<lambda>n. Point 0 0 0) []))) \<and>
   selectNode_Point exampleHeaders (exampleState (exampleGraph [0] (\<lambda>n. Point 0 0 0) []))
     (Point (1 - 1 / 2 ^ 30) 0 0) = SELECTION_NONE exampleHeaders \<and>
   SELECTION_NONE exampleHeaders \<noteq> 0"
  by (simp add: selectNode_Point_def exampleState_simps exampleGraph_simps sqrDist_def
        Geometry_sqr_def Math_sqr_def sqrDist_Scalar_def Geometry_sqr_Scalar_def
        Math_sqr_Scalar_def fsub_def round_values exampleHeaders_def)

text \<open>
  C3 (amended). For every state and every query point, \<^verbatim>\<open>selectNode(point)\<close> decides by
  the squared distances as computed and stored in single precision: when the computed
  squared distance of some node is below the computed square of the node radius, it
  returns a node of the graph whose computed squared distance is below that threshold
  and which no node undercuts; otherwise, so also on a graph without nodes, it returns
  \<^verbatim>\<open>SELECTION_NONE\<close>. With one node at the origin and node radius 1, the query point
  (0.5, 0, 0) selects the node and the query point (2, 0, 0) selects none.
\<close>

theorem selectNode_Point_nearest_computed:
  "(if \<exists>n\<in>set (nodes (g st)). flt (dist2_float (g st) c n) (nodeRadius2 st)
    then selectNode_Point H st c \<in> set (nodes (g st)) \<and>
         flt (dist2_float (g st) c (selectNode_Point H st c)) (nodeRadius2 st) \<and>
         (\<forall>m\<in>set (nodes (g st)).
            \<not> flt (dist2_float (g st) c m) (dist2_float (g st) c (selectNode_Point H st c)))
    else selectNode_Point H st c = SELECTION_NONE H) \<and>
   selectNode_Point H (exampleState (exampleGraph [0] (\<lambda>n. Point 0 0 0) [])) (Point (1 / 2) 0 0) = 0 \<and>
   selectNode_Point H (exampleState (exampleGraph [0] (\<lambda>n. Point 0 0 0) [])) (Point 2 0 0)
     = SELECTION_NONE H \<and>
   selectNode_Point H (exampleState (exampleGraph [] pos [])) c = SELECTION_NONE H"
proof -
  obtain r d where run:
    "selectNode_Point_loop (g st) c (nodes (g st)) (SELECTION_NONE H, nodeRadius2 st) = (r, d)"
    by (cases "selectNode_Point_loop (g st) c (nodes (g st)) (SELECTION_NONE H, nodeRadius2 st)")
  then have sel: "selectNode_Point H st c = r"
    by (simp add: selectNode_Point_def nodeRadius2_def)
  have general: "if \<exists>n\<in>set (nodes (g st)). flt (dist2_float (g st) c n) (nodeRadius2 st)
    then selectNode_Point H st c \<in> set (nodes (g st)) \<and>
         flt (dist2_float (g st) c (selectNode_Point H st c)) (nodeRadius2 st) \<and>
         (\<forall>m\<in>set (nodes (g st)).
            \<not> flt (dist2_float (g st) c m) (dist2_float (g st) c (selectNode_Point H st c)))
    else selectNode_Point H st c = SELECTION_NONE H"
    using selectNode_Point_loop_spec [OF run] unfolding sel by (auto split: if_splits)
  have near: "selectNode_Point H (exampleState (exampleGraph [0] (\<lambda>n. Point 0 0 0) [])) (Point (1 / 2) 0 0) = 0"
    by (simp add: selectNode_Point_def exampleState_simps exampleGraph_simps sqrDist_Scalar_def
        Geometry_sqr_Scalar_def Math_sqr_Scalar_def fsub_def round_values)
  have far: "selectNode_Point H (exampleState (exampleGraph [0] (\<lambda>n. Point 0 0 0) [])) (Point 2 0 0)
     = SELECTION_NONE H"
    by (simp add: selectNode_Point_def exampleState_simps exampleGraph_simps sqrDist_Scalar_def
        Geometry_sqr_Scalar_def Math_sqr_Scalar_def fsub_def round_values)
  have empty: "selectNode_Point H (exampleState (exampleGraph [] pos [])) c = SELECTION_NONE H"
    by (simp add: selectNode_Point_def exampleState_simps exampleGraph_simps)
  from general near far empty show ?thesis by blast
qed

theorem selectNode_Point_nearest_computed_witness:
  "(\<exists>n\<in>set (nodes (g (exampleState (exampleGraph [3, 7]
        (\<lambda>n. if n = 3 then Point (- (3 / 2)) 0 0 else Point 0 0 0) [])))).
      flt (dist2_float (g (exampleState (exampleGraph [3, 7]
            (\<lambda>n. if n = 3 then Point (- (3 / 2)) 0 0 else Point 0 0 0) []))) (Point (1 / 2) 0 0) n)
        (nodeRadius2 (exampleState (exampleGraph [3, 7]
            (\<lambda>n. if n = 3 then Point (- (3 / 2)) 0 0 else Point 0 0 0) [])))) \<and>
   selectNode_Point exampleHeaders (exampleState (exampleGraph [3, 7]
        (\<lambda>n. if n = 3 then Point (- (3 / 2)) 0 0 else Point 0 0 0) [])) (Point (1 / 2) 0 0) = 7 \<and>
   dist2_float (exampleGraph [3, 7] (\<lambda>n. if n = 3 then Point (- (3 / 2)) 0 0 else Point 0 0 0) [])
     (Point (1 / 2) 0 0) 7 = Fin (1 / 4) \<and>
   dist2_float (exampleGraph [3, 7] (\<lambda>n. if n = 3 then Point (- (3 / 2)) 0 0 else Point 0 0 0) [])
     (Point (1 / 2) 0 0) 3 = Fin 4 \<and>
   selectNode_Point exampleHeaders (exampleState (exampleGraph [0] (\<lambda>n. Point 0 0 0) [])) (Point 2 0 0) = - 1"
  using selectNode_Point_nearest_computed [of "exampleState (exampleGraph [3, 7]
        (\<lambda>n. if n = 3 then Point (- (3 / 2)) 0 0 else Point 0 0 0) [])" "Point (1 / 2) 0 0" exampleHeaders]
  by (simp add: selectNode_Point_def exampleState_simps exampleGraph_simps sqrDist_Scalar_def
        Geometry_sqr_Scalar_def Math_sqr_Scalar_def fsub_def round_values exampleHeaders_def
        dist2_float_def nodeRadius2_def)

section \<open>Ray selection\<close>

lemma exampleConeState_simps:
  "g (exampleConeState gr) = gr" "coneAngle (exampleConeState gr) = 1 / 128"
  by (simp_all add: exampleConeState_def exampleState_def)

lemma exampleRay_simps:
  "getOrigin exampleRay = Point 0 0 0" "getDirection exampleRay = Vector 1 0 0"
  by (simp_all add: exampleRay_def)

lemmas ray_evaluation =
  selectNode_Ray_def exampleConeState_simps exampleRay_simps exampleGraph_simps
  Geometry_sqr_Scalar_def Math_sqr_Scalar_def Math_sqr_float_def fsub_def fge_def signed_def
  FLT_MAX_def round_values

text \<open>
  The statement of C2 in exact arithmetic fails in both directions; the ray starts at
  the origin along (1, 0, 0) and the cone angle is 1/128. A node at
  (\<^verbatim>\<open>FLT_MAX\<close>, 0, 0) lies on the ray, in front of its origin, but its forward
  projection is not below the initial \<^verbatim>\<open>lambdaMin\<close> and no node is selected. A node at
  (2^64, 2^63, 0) lies far outside the cone, but \<^verbatim>\<open>Math::sqr(x)\<close> overflows to infinity
  in \<^verbatim>\<open>float\<close>, the quotient is 0 and the node is selected.
\<close>

theorem selectNode_Ray_cone_counterexample:
  "0 \<le> forward (exampleGraph [0] (\<lambda>n. Point FLT_MAX 0 0) []) exampleRay 0 \<and>
   offset2 (exampleGraph [0] (\<lambda>n. Point FLT_MAX 0 0) []) exampleRay 0
     / Math_sqr (forward (exampleGraph [0] (\<lambda>n. Point FLT_MAX 0 0) []) exampleRay 0)
     \<le> Math_sqr (coneAngle (exampleConeState (exampleGraph [0] (\<lambda>n. Point FLT_MAX 0 0) []))) \<and>
   selectNode_Ray exampleHeaders (exampleConeState (exampleGraph [0] (\<lambda>n. Point FLT_MAX 0 0) []))
     exampleRay = SELECTION_NONE exampleHeaders \<and>
   SELECTION_NONE exampleHeaders \<noteq> 0 \<and>
   0 \<le> forward (exampleGraph [0] (\<lambda>n. Point (2 ^ 64) (2 ^ 63) 0) []) exampleRay 0 \<and>
   Math_sqr (coneAngle (exampleConeState (exampleGraph [0] (\<lambda>n. Point (2 ^ 64) (2 ^ 63) 0) [])))
     < offset2 (exampleGraph [0] (\<lambda>n. Point (2 ^ 64) (2 ^ 63) 0) []) exampleRay 0
       / Math_sqr (forward (exampleGraph [0] (\<lambda>n. Point (2 ^ 64) (2 ^ 63) 0) []) exampleRay 0) \<and>
   selectNode_Ray exampleHeaders (exampleConeState (exampleGraph [0] (\<lambda>n. Point (2 ^ 64) (2 ^ 63) 0) []))
     exampleRay = 0"
proof -
  have exact: "0 \<le> forward (exampleGraph [0] (\<lambda>n. Point FLT_MAX 0 0) []) exampleRay 0"
    "offset2 (exampleGraph [0] (\<lambda>n. Point FLT_MAX 0 0) []) exampleRay 0
     / Math_sqr (forward (exampleGraph [0] (\<lambda>n. Point FLT_MAX 0 0) []) exampleRay 0)
     \<le> Math_sqr (coneAngle (exampleConeState (exampleGraph [0] (\<lambda>n. Point FLT_MAX 0 0) [])))"
    "0 \<le> forward (exampleGraph [0] (\<lambda>n. Point (2 ^ 64) (2 ^ 63) 0) []) exampleRay 0"
    "Math_sqr (coneAngle (exampleConeState (exampleGraph [0] (\<lambda>n. Point (2 ^ 64) (2 ^ 63) 0) [])))
     < offset2 (exampleGraph [0] (\<lambda>n. Point (2 ^ 64) (2 ^ 63) 0) []) exampleRay 0
       / Math_sqr (forward (exampleGraph [0] (\<lambda>n. Point (2 ^ 64) (2 ^ 63) 0) []) exampleRay 0)"
    by (simp_all add: forward_def offset2_def Math_sqr_def Geometry_sqr_def FLT_MAX_def
        exampleConeState_simps exampleRay_simps exampleGraph_simps)
  have far: "selectNode_Ray exampleHeaders (exampleConeState (exampleGraph [0] (\<lambda>n. Point FLT_MAX 0 0) []))
     exampleRay = SELECTION_NONE exampleHeaders"
    by (simp add: ray_evaluation)
  have outside: "selectNode_Ray exampleHeaders
     (exampleConeState (exampleGraph [0] (\<lambda>n. Point (2 ^ 64) (2 ^ 63) 0) [])) exampleRay = 0"
    by (simp add: ray_evaluation)
  have none: "SELECTION_NONE exampleHeaders \<noteq> 0"
    by (simp add: exampleHeaders_def)
  from exact far outside none show ?thesis by blast
qed

text \<open>
  C2 (amended). For every state and every ray, \<^verbatim>\<open>selectNode(ray)\<close> decides by the
  values as computed and stored in single precision. A node is a candidate when its
  computed forward projection \<open>x\<close> satisfies \<open>0 \<le> x\<close> and \<open>x < FLT_MAX\<close> and the computed
  quotient of its squared perpendicular offset by \<open>x\<^sup>2\<close> is at most the computed
  square of the cone angle; a zero divisor makes the quotient an infinity or
  not-a-number, it stops nothing. When there is a candidate the function returns a
  candidate that no candidate undercuts in computed forward projection; otherwise it
  returns \<^verbatim>\<open>SELECTION_NONE\<close>. With the ray from the origin along (1, 0, 0) and the cone
  angle 1/128, a node at (5, 0, 0) is selected and a node at (5, 1, 0) is not.
\<close>

theorem selectNode_Ray_nearest_computed:
  "(if \<exists>n\<in>set (nodes (g st)). candidate (g st) ray (coneAngle2 st) (Fin FLT_MAX) n
    then selectNode_Ray H st ray \<in> set (nodes (g st)) \<and>
         candidate (g st) ray (coneAngle2 st) (Fin FLT_MAX) (selectNode_Ray H st ray) \<and>
         (\<forall>m\<in>set (nodes (g st)). candidate (g st) ray (coneAngle2 st) (Fin FLT_MAX) m \<longrightarrow>
            \<not> flt (forward_float (g st) ray m) (forward_float (g st) ray (selectNode_Ray H st ray)))
    else selectNode_Ray H st ray = SELECTION_NONE H) \<and>
   selectNode_Ray H (exampleConeState (exampleGraph [0] (\<lambda>n. Point 5 0 0) [])) exampleRay = 0 \<and>
   selectNode_Ray H (exampleConeState (exampleGraph [0] (\<lambda>n. Point 5 1 0) [])) exampleRay
     = SELECTION_NONE H"
proof -
  obtain r l where run:
    "selectNode_Ray_loop (g st) ray (coneAngle2 st) (nodes (g st)) (SELECTION_NONE H, Fin FLT_MAX) = (r, l)"
    by (cases "selectNode_Ray_loop (g st) ray (coneAngle2 st) (nodes (g st)) (SELECTION_NONE H, Fin FLT_MAX)")
  then have sel: "selectNode_Ray H st ray = r"
    by (simp add: selectNode_Ray_def coneAngle2_def)
  have general: "if \<exists>n\<in>set (nodes (g st)). candidate (g st) ray (coneAngle2 st) (Fin FLT_MAX) n
    then selectNode_Ray H st ray \<in> set (nodes (g st)) \<and>
         candidate (g st) ray (coneAngle2 st) (Fin FLT_MAX) (selectNode_Ray H st ray) \<and>
         (\<forall>m\<in>set (nodes (g st)). candidate (g st) ray (coneAngle2 st) (Fin FLT_MAX) m \<longrightarrow>
            \<not> flt (forward_float (g st) ray m) (forward_float (g st) ray (selectNode_Ray H st ray)))
    else selectNode_Ray H st ray = SELECTION_NONE H"
    using selectNode_Ray_loop_spec [OF run] unfolding sel by (auto split: if_splits)
  have on_axis: "selectNode_Ray H (exampleConeState (exampleGraph [0] (\<lambda>n. Point 5 0 0) [])) exampleRay = 0"
    by (simp add: ray_evaluation)
  have off_axis: "selectNode_Ray H (exampleConeState (exampleGraph [0] (\<lambda>n. Point 5 1 0) [])) exampleRay
     = SELECTION_NONE H"
    by (simp add: ray_evaluation)
  from general on_axis off_axis show ?thesis by blast
qed

theorem selectNode_Ray_nearest_computed_witness:
  "(\<exists>n\<in>set (nodes (g (exampleConeState (exampleGraph [4, 6, 8]
        (\<lambda>n. if n = 4 then Point 5 0 0 else if n = 6 then Point 1 0 0 else Point 5 1 0) [])))).
      candidate (g (exampleConeState (exampleGraph [4, 6, 8]
          (\<lambda>n. if n = 4 then Point 5 0 0 else if n = 6 then Point 1 0 0 else Point 5 1 0) [])))
        exampleRay
        (coneAngle2 (exampleConeState (exampleGraph [4, 6, 8]
          (\<lambda>n. if n = 4 then Point 5 0 0 else if n = 6 then Point 1 0 0 else Point 5 1 0) [])))
        (Fin FLT_MAX) n) \<and>
   selectNode_Ray exampleHeaders (exampleConeState (exampleGraph [4, 6, 8]
        (\<lambda>n. if n = 4 then Point 5 0 0 else if n = 6 then Point 1 0 0 else Point 5 1 0) []))
      exampleRay = 6 \<and>
   forward_float (exampleGraph [4, 6, 8]
        (\<lambda>n. if n = 4 then Point 5 0 0 else if n = 6 then Point 1 0 0 else Point 5 1 0) [])
      exampleRay 6 = Fin 1 \<and>
   forward_float (exampleGraph [4, 6, 8]
        (\<lambda>n. if n = 4 then Point 5 0 0 else if n = 6 then Point 1 0 0 else Point 5 1 0) [])
      exampleRay 4 = Fin 5 \<and>
   \<not> candidate (exampleGraph [4, 6, 8]
        (\<lambda>n. if n = 4 then Point 5 0 0 else if n = 6 then Point 1 0 0 else Point 5 1 0) [])
      exampleRay (Fin (1 / 16384)) (Fin FLT_MAX) 8"
  using selectNode_Ray_nearest_computed [of "exampleConeState (exampleGraph [4, 6, 8]
        (\<lambda>n. if n = 4 then Point 5 0 0 else if n = 6 then Point 1 0 0 else Point 5 1 0) [])"
      exampleRay exampleHeaders]
  by (simp add: ray_evaluation candidate_def coneAngle2_def forward_float_def offset2_float_def
        quotient_float_def)

text \<open>
  The statement of C10 fails: a forward projection that is not zero does not keep the
  divisor from being zero. A node at (2^-100, 0, 0) on the ray from the origin along
  (1, 0, 0) has the forward projection 2^-100, in exact arithmetic and as computed; it
  passes the guard, and \<^verbatim>\<open>Math::sqr(x)\<close> underflows to zero in \<^verbatim>\<open>float\<close>. The quotient
  0/0 is not-a-number, the comparison is false and no node is selected.
\<close>

theorem selectNode_Ray_underflow_counterexample:
  "forward (exampleGraph [0] (\<lambda>n. Point (1 / 2 ^ 100) 0 0) []) exampleRay 0 = 1 / 2 ^ 100 \<and>
   forward_float (exampleGraph [0] (\<lambda>n. Point (1 / 2 ^ 100) 0 0) []) exampleRay 0 = Fin (1 / 2 ^ 100) \<and>
   fge (forward_float (exampleGraph [0] (\<lambda>n. Point (1 / 2 ^ 100) 0 0) []) exampleRay 0) (Fin 0) \<and>
   flt (forward_float (exampleGraph [0] (\<lambda>n. Point (1 / 2 ^ 100) 0 0) []) exampleRay 0) (Fin FLT_MAX) \<and>
   Math_sqr_float (forward_float (exampleGraph [0] (\<lambda>n. Point (1 / 2 ^ 100) 0 0) []) exampleRay 0)
     = Fin 0 \<and>
   quotient_float (exampleGraph [0] (\<lambda>n. Point (1 / 2 ^ 100) 0 0) []) exampleRay 0 = NaN \<and>
   selectNode_Ray exampleHeaders (exampleConeState (exampleGraph [0] (\<lambda>n. Point (1 / 2 ^ 100) 0 0) []))
     exampleRay = SELECTION_NONE exampleHeaders"
proof -
  have x: "forward_float (exampleGraph [0] (\<lambda>n. Point (1 / 2 ^ 100) 0 0) []) exampleRay 0
      = Fin (1 / 2 ^ 100)"
    by (simp add: forward_float_def ray_evaluation)
  have exact: "forward (exampleGraph [0] (\<lambda>n. Point (1 / 2 ^ 100) 0 0) []) exampleRay 0 = 1 / 2 ^ 100"
    by (simp add: forward_def exampleRay_simps exampleGraph_simps)
  have guard: "fge (Fin (1 / 2 ^ 100)) (Fin 0)" "flt (Fin (1 / 2 ^ 100)) (Fin FLT_MAX)"
    by (simp_all add: fge_def FLT_MAX_def)
  have divisor: "Math_sqr_float (Fin (1 / 2 ^ 100)) = Fin 0"
    by (simp add: Math_sqr_float_def round_values)
  have quotient: "quotient_float (exampleGraph [0] (\<lambda>n. Point (1 / 2 ^ 100) 0 0) []) exampleRay 0 = NaN"
    unfolding quotient_float_def x divisor
    by (simp add: offset2_float_def ray_evaluation)
  have none: "selectNode_Ray exampleHeaders
      (exampleConeState (exampleGraph [0] (\<lambda>n. Point (1 / 2 ^ 100) 0 0) [])) exampleRay
      = SELECTION_NONE exampleHeaders"
    by (simp add: ray_evaluation)
  from exact x guard divisor quotient none show ?thesis by simp
qed

text \<open>
  The cone test with a zero divisor fails only while the threshold is finite. The
  constructor sets the cone angle to 0.005; were it 2^64, its square would be an
  infinity in \<^verbatim>\<open>float\<close>, and a node at (0, 1, 0), with the forward projection zero and
  the quotient 1/0, would be selected.
\<close>

lemma selectNode_Ray_infinite_threshold:
  "coneAngle2 ((exampleState (exampleGraph [0] (\<lambda>n. Point 0 1 0) []))\<lparr>coneAngle := 2 ^ 64\<rparr>) = PlusInf \<and>
   forward_float (exampleGraph [0] (\<lambda>n. Point 0 1 0) []) exampleRay 0 = Fin 0 \<and>
   selectNode_Ray exampleHeaders
     ((exampleState (exampleGraph [0] (\<lambda>n. Point 0 1 0) []))\<lparr>coneAngle := 2 ^ 64\<rparr>) exampleRay = 0"
  by (simp add: ray_evaluation coneAngle2_def forward_float_def exampleState_simps)

text \<open>
  C10 (amended). In \<^verbatim>\<open>selectNode(ray)\<close> the guard \<^verbatim>\<open>x >= 0 && x < lambdaMin\<close> lets a
  zero divisor through: whenever the computed square of the cone angle is not
  infinite, a node whose computed forward projection is zero passes the guard at its
  turn, wherever it stands in the node list, and \<^verbatim>\<open>Math::sqr(x)\<close> is zero. The division
  is carried out in \<^verbatim>\<open>float\<close>: by a zero divisor, whether \<open>x\<close> is zero or its square has
  underflowed, it gives an infinity or not-a-number and the cone test fails. So the node
  that the function returns, when it returns one, is a node of the graph with a
  non-zero divisor and a computed forward projection above zero.
\<close>

theorem selectNode_Ray_division:
  assumes "coneAngle2 st \<noteq> PlusInf"
  shows "(\<forall>pre n post. nodes (g st) = pre @ n # post \<and> forward_float (g st) ray n = Fin 0 \<longrightarrow>
       fge (forward_float (g st) ray n) (Fin 0) \<and>
       flt (forward_float (g st) ray n)
         (snd (selectNode_Ray_loop (g st) ray (coneAngle2 st) pre (SELECTION_NONE H, Fin FLT_MAX))) \<and>
       Math_sqr_float (forward_float (g st) ray n) = Fin 0) \<and>
     (\<forall>n. Math_sqr_float (forward_float (g st) ray n) = Fin 0 \<longrightarrow>
       \<not> fle (quotient_float (g st) ray n) (coneAngle2 st)) \<and>
     (selectNode_Ray H st ray \<noteq> SELECTION_NONE H \<longrightarrow>
       selectNode_Ray H st ray \<in> set (nodes (g st)) \<and>
       Math_sqr_float (forward_float (g st) ray (selectNode_Ray H st ray)) \<noteq> Fin 0 \<and>
       flt (Fin 0) (forward_float (g st) ray (selectNode_Ray H st ray)))"
proof -
  have start: "flt (Fin 0) (Fin FLT_MAX)"
    by (simp add: FLT_MAX_def)
  have guard: "fge (forward_float (g st) ray n) (Fin 0) \<and>
       flt (forward_float (g st) ray n)
         (snd (selectNode_Ray_loop (g st) ray (coneAngle2 st) pre (SELECTION_NONE H, Fin FLT_MAX))) \<and>
       Math_sqr_float (forward_float (g st) ray n) = Fin 0"
    if "forward_float (g st) ray n = Fin 0" for pre n
    using selectNode_Ray_loop_positive [OF assms start, of "g st" ray pre "SELECTION_NONE H"] that
    by (simp add: fge_def Math_sqr_float_zero)
  have fails: "\<not> fle (quotient_float (g st) ray n) (coneAngle2 st)"
    if "Math_sqr_float (forward_float (g st) ray n) = Fin 0" for n
    using assms that by (rule zero_divisor_fails)
  obtain r l where run:
    "selectNode_Ray_loop (g st) ray (coneAngle2 st) (nodes (g st)) (SELECTION_NONE H, Fin FLT_MAX) = (r, l)"
    by (cases "selectNode_Ray_loop (g st) ray (coneAngle2 st) (nodes (g st)) (SELECTION_NONE H, Fin FLT_MAX)")
  then have sel: "selectNode_Ray H st ray = r"
    by (simp add: selectNode_Ray_def coneAngle2_def)
  have returned: "selectNode_Ray H st ray \<in> set (nodes (g st)) \<and>
       Math_sqr_float (forward_float (g st) ray (selectNode_Ray H st ray)) \<noteq> Fin 0 \<and>
       flt (Fin 0) (forward_float (g st) ray (selectNode_Ray H st ray))"
    if "selectNode_Ray H st ray \<noteq> SELECTION_NONE H"
    using selectNode_Ray_loop_spec [OF run] that candidate_positive [OF assms] unfolding sel
    by (auto split: if_splits)
  from guard fails returned show ?thesis by blast
qed

theorem selectNode_Ray_division_witness:
  "coneAngle2 (exampleConeState (exampleGraph [0, 1]
        (\<lambda>n. if n = 0 then Point 0 0 0 else Point 5 0 0) [])) \<noteq> PlusInf \<and>
   nodes (g (exampleConeState (exampleGraph [0, 1]
        (\<lambda>n. if n = 0 then Point 0 0 0 else Point 5 0 0) []))) = [] @ 0 # [1] \<and>
   forward_float (g (exampleConeState (exampleGraph [0, 1]
        (\<lambda>n. if n = 0 then Point 0 0 0 else Point 5 0 0) []))) exampleRay 0 = Fin 0 \<and>
   Math_sqr_float (forward_float (g (exampleConeState (exampleGraph [0, 1]
        (\<lambda>n. if n = 0 then Point 0 0 0 else Point 5 0 0) []))) exampleRay 0) = Fin 0 \<and>
   \<not> fle (quotient_float (g (exampleConeState (exampleGraph [0, 1]
        (\<lambda>n. if n = 0 then Point 0 0 0 else Point 5 0 0) []))) exampleRay 0)
      (coneAngle2 (exampleConeState (exampleGraph [0, 1]
        (\<lambda>n. if n = 0 then Point 0 0 0 else Point 5 0 0) []))) \<and>
   selectNode_Ray exampleHeaders (exampleConeState (exampleGraph [0, 1]
        (\<lambda>n. if n = 0 then Point 0 0 0 else Point 5 0 0) [])) exampleRay = 1 \<and>
   SELECTION_NONE exampleHeaders \<noteq> 1 \<and>
   flt (Fin 0) (forward_float (g (exampleConeState (exampleGraph [0, 1]
        (\<lambda>n. if n = 0 then Point 0 0 0 else Point 5 0 0) []))) exampleRay 1)"
  using selectNode_Ray_division [of "exampleConeState (exampleGraph [0, 1]
        (\<lambda>n. if n = 0 then Point 0 0 0 else Point 5 0 0) [])" exampleRay exampleHeaders]
  by (simp add: ray_evaluation coneAngle2_def forward_float_def offset2_float_def
        quotient_float_def exampleHeaders_def)

section \<open>Selecting a node by index\<close>

text \<open>
  C8. For every state and every node index that is not a valid node,
  \<^verbatim>\<open>setSelectedNode\<close> returns normally, leaves the whole state unchanged (so the
  selected node, the previous node and the graph) and only writes the diagnostic.
\<close>

theorem setSelectedNode_invalid:
  "\<not> isValidNode (g st) node \<Longrightarrow> setSelectedNode H st node = (st, [InvalidNodeSelected node])"
  by (simp add: setSelectedNode_def)

theorem setSelectedNode_invalid_witness:
  "\<not> isValidNode (g (exampleState (exampleGraph [0, 1] (\<lambda>n. Point 0 0 0) []))) 5 \<and>
   setSelectedNode exampleHeaders (exampleState (exampleGraph [0, 1] (\<lambda>n. Point 0 0 0) [])) 5
     = (exampleState (exampleGraph [0, 1] (\<lambda>n. Point 0 0 0) []), [InvalidNodeSelected 5]) \<and>
   selectedNode (fst (setSelectedNode exampleHeaders
       (exampleState (exampleGraph [0, 1] (\<lambda>n. Point 0 0 0) [])) 1)) = 1"
  using setSelectedNode_invalid [of "exampleState (exampleGraph [0, 1] (\<lambda>n. Point 0 0 0) [])" 5 exampleHeaders]
  by (simp add: isValidNode_def exampleState_simps exampleGraph_simps setSelectedNode_def
      shortestPathCallback_def Let_def)

section \<open>The geometry of a drawn edge\<close>

lemma drawEdge_eq:
  "drawEdge st s t m th a b =
     EdgePrimitive m s (diff t s) (cross (diff t s) (zVector st))
       (if b \<and> a then edgeOffset st else 0) th
       (if b \<and> a then mag (diff t s) - 2 * edgeOffset st
        else if a then mag (diff t s) - edgeOffset st else mag (diff t s))
       a"
  by (simp add: drawEdge_def Let_def)

lemma sqrt_100: "sqrt 100 = 10"
proof -
  have "sqrt 100 = sqrt (10\<^sup>2)" by simp
  also have "\<dots> = 10" by (simp only: real_sqrt_abs abs_numeral)
  finally show ?thesis .
qed

text \<open>
  C7. For an edge drawn with an arrowhead: when it is one of a bidirectional pair, the
  cylinder starts \<^verbatim>\<open>edgeOffset\<close> after the source and its length is the edge length
  minus twice \<^verbatim>\<open>edgeOffset\<close>; otherwise it starts at the source and its length is the
  edge length minus \<^verbatim>\<open>edgeOffset\<close>. Without the arrow the cylinder starts at the source
  and spans the full edge length. The edges of the graph are drawn with the arrow and
  with the graph's bidirectional flag of their endpoints.
\<close>

theorem drawEdge_foreshortening:
  "(drawArrow \<and> bidirectional \<longrightarrow>
      sourceOffset (drawEdge st s t m th drawArrow bidirectional) = edgeOffset st \<and>
      cylinderLength (drawEdge st s t m th drawArrow bidirectional)
        = mag (diff t s) - 2 * edgeOffset st) \<and>
   (drawArrow \<and> \<not> bidirectional \<longrightarrow>
      sourceOffset (drawEdge st s t m th drawArrow bidirectional) = 0 \<and>
      cylinderLength (drawEdge st s t m th drawArrow bidirectional)
        = mag (diff t s) - edgeOffset st) \<and>
   (\<not> drawArrow \<longrightarrow>
      sourceOffset (drawEdge st s t m th drawArrow bidirectional) = 0 \<and>
      cylinderLength (drawEdge st s t m th drawArrow bidirectional) = mag (diff t s)) \<and>
   hasArrow (drawEdge st s t m th drawArrow bidirectional) = drawArrow \<and>
   drawEdge_Edge st e =
     drawEdge st (getNodePosition (gCopy st) (source e)) (getNodePosition (gCopy st) (target e))
       (EdgeMaterialFromId (material e)) (edgeThickness st * weight e) True
       (isBidirectional (gCopy st) (source e) (target e))"
  by (simp add: drawEdge_eq drawEdge_Edge_def)

theorem drawEdge_foreshortening_witness:
  "sourceOffset (drawEdge (exampleState (exampleGraph [] (\<lambda>n. Point 0 0 0) []))
      (Point 0 0 0) (Point 10 0 0) (EdgeMaterialFromId 0) 1 True True) = 3 / 2 \<and>
   cylinderLength (drawEdge (exampleState (exampleGraph [] (\<lambda>n. Point 0 0 0) []))
      (Point 0 0 0) (Point 10 0 0) (EdgeMaterialFromId 0) 1 True True) = 7 \<and>
   sourceOffset (drawEdge (exampleState (exampleGraph [] (\<lambda>n. Point 0 0 0) []))
      (Point 0 0 0) (Point 10 0 0) (EdgeMaterialFromId 0) 1 True False) = 0 \<and>
   cylinderLength (drawEdge (exampleState (exampleGraph [] (\<lambda>n. Point 0 0 0) []))
      (Point 0 0 0) (Point 10 0 0) (EdgeMaterialFromId 0) 1 True False) = 17 / 2 \<and>
   cylinderLength (drawEdge (exampleState (exampleGraph [] (\<lambda>n. Point 0 0 0) []))
      (Point 0 0 0) (Point 10 0 0) (EdgeMaterialFromId 0) 1 False True) = 10"
  using
    drawEdge_foreshortening [of True True "exampleState (exampleGraph [] (\<lambda>n. Point 0 0 0) [])"
      "Point 0 0 0" "Point 10 0 0" "EdgeMaterialFromId 0" 1]
    drawEdge_foreshortening [of True False "exampleState (exampleGraph [] (\<lambda>n. Point 0 0 0) [])"
      "Point 0 0 0" "Point 10 0 0" "EdgeMaterialFromId 0" 1]
    drawEdge_foreshortening [of False True "exampleState (exampleGraph [] (\<lambda>n. Point 0 0 0) [])"
      "Point 0 0 0" "Point 10 0 0" "EdgeMaterialFromId 0" 1]
  by (simp add: mag_def Geometry_sqr_def exampleState_simps sqrt_100)

section \<open>Drawing the edges\<close>

lemma find_filter_imp:
  "(\<And>y. P y \<Longrightarrow> Q y) \<Longrightarrow> find P (filter Q xs) = find P xs"
  by (induction xs) auto

lemma find_None_filter:
  "find P (filter (\<lambda>y. \<not> P y) xs) = None"
  by (induction xs) auto

lemma filter_keepFirst:
  "filter (\<lambda>y. key y = k) (keepFirst key xs) =
     (case find (\<lambda>y. key y = k) xs of None \<Rightarrow> [] | Some y \<Rightarrow> [y])"
proof (induction key xs rule: keepFirst.induct)
  case (1 key)
  then show ?case by simp
next
  case (2 key x xs)
  show ?case
  proof (cases "key x = k")
    case True
    have "find (\<lambda>y. key y = k) (filter (\<lambda>y. key y \<noteq> key x) xs) = None"
      unfolding True by (rule find_None_filter)
    with 2 True show ?thesis by simp
  next
    case False
    then have "find (\<lambda>y. key y = k) (filter (\<lambda>y. key y \<noteq> key x) xs) = find (\<lambda>y. key y = k) xs"
      by (intro find_filter_imp) auto
    with 2 False show ?thesis by simp
  qed
qed

lemma find_as_filter:
  "find P xs = (case filter P xs of [] \<Rightarrow> None | x # rest \<Rightarrow> Some x)"
  by (induction xs) auto

lemma keepFirst_one_per_key:
  assumes "k \<in> key ` set xs"
  shows "length (filter (\<lambda>y. key y = k) (keepFirst key xs)) = 1 \<and>
         find (\<lambda>y. key y = k) (keepFirst key xs) = find (\<lambda>y. key y = k) xs"
proof -
  from assms obtain y where y: "find (\<lambda>y. key y = k) xs = Some y"
    by (cases "find (\<lambda>y. key y = k) xs") (auto simp: find_None_iff)
  then have "filter (\<lambda>y. key y = k) (keepFirst key xs) = [y]"
    by (simp add: filter_keepFirst)
  then show ?thesis
    using y by (simp add: find_as_filter [of _ "keepFirst key xs"])
qed

lemma drawEdges_loop_step:
  "drawEdges_loop st (edge # rest) drawn =
     (if \<not> isSelectedComponent st (source (getEdge (gCopy st) edge)) then drawEdges_loop st rest drawn
      else if \<not> inTable (source (getEdge (gCopy st) edge)) (target (getEdge (gCopy st) edge))
      then Inl OutOfBounds
      else if endpoints (getEdge (gCopy st) edge) \<in> drawn then drawEdges_loop st rest drawn
      else if bundleButton st then
        (case drawEdges_loop st rest drawn of
           Inl err \<Rightarrow> Inl err
         | Inr out \<Rightarrow>
             Inr (map (\<lambda>segment.
                    drawEdge st (getSegment st edge segment) (getSegment st edge (segment + 1))
                      (EdgeMaterial edge) (edgeThickness st * weight (getEdge (gCopy st) edge))
                      False False) [0..getSegmentCount st] @ out))
      else
        (case drawEdges_loop st rest (insert (endpoints (getEdge (gCopy st) edge)) drawn) of
           Inl err \<Rightarrow> Inl err
         | Inr out \<Rightarrow> Inr (drawEdge_Edge st (getEdge (gCopy st) edge) # out)))"
  by (simp add: Let_def endpoints_def)

declare drawEdges_loop.simps(2) [simp del]

lemma drawEdges_loop_fault:
  "\<exists>edge\<in>set ids. isSelectedComponent st (source (getEdge (gCopy st) edge)) \<and>
      \<not> inTable (source (getEdge (gCopy st) edge)) (target (getEdge (gCopy st) edge))
   \<Longrightarrow> drawEdges_loop st ids drawn = Inl OutOfBounds"
proof (induction ids arbitrary: drawn)
  case Nil
  then show ?case by simp
next
  case (Cons edge rest)
  show ?case
  proof (cases "isSelectedComponent st (source (getEdge (gCopy st) edge)) \<and>
      \<not> inTable (source (getEdge (gCopy st) edge)) (target (getEdge (gCopy st) edge))")
    case True
    then show ?thesis by (simp add: drawEdges_loop_step)
  next
    case False
    with Cons.prems have "\<exists>edge\<in>set rest. isSelectedComponent st (source (getEdge (gCopy st) edge)) \<and>
      \<not> inTable (source (getEdge (gCopy st) edge)) (target (getEdge (gCopy st) edge))"
      by auto
    then have "drawEdges_loop st rest d = Inl OutOfBounds" for d
      by (rule Cons.IH)
    then show ?thesis by (simp add: drawEdges_loop_step)
  qed
qed

lemma drawEdges_loop_returns:
  "\<forall>edge\<in>set ids. isSelectedComponent st (source (getEdge (gCopy st) edge)) \<longrightarrow>
      inTable (source (getEdge (gCopy st) edge)) (target (getEdge (gCopy st) edge))
   \<Longrightarrow> \<exists>out. drawEdges_loop st ids drawn = Inr out"
proof (induction ids arbitrary: drawn)
  case Nil
  then show ?case by simp
next
  case (Cons edge rest)
  then have "\<exists>out. drawEdges_loop st rest d = Inr out" for d
    by simp
  then obtain f where f: "drawEdges_loop st rest d = Inr (f d)" for d
    by metis
  from Cons.prems show ?case
    by (simp add: drawEdges_loop_step f)
qed

lemma drawEdges_loop_dedup:
  assumes "\<not> bundleButton st"
  shows "\<forall>edge\<in>set ids. isSelectedComponent st (source (getEdge (gCopy st) edge)) \<longrightarrow>
      inTable (source (getEdge (gCopy st) edge)) (target (getEdge (gCopy st) edge))
   \<Longrightarrow> drawEdges_loop st ids drawn =
       Inr (map (drawEdge_Edge st)
         (keepFirst endpoints
            (filter (\<lambda>e. isSelectedComponent st (source e) \<and> endpoints e \<notin> drawn)
               (map (getEdge (gCopy st)) ids))))"
proof (induction ids arbitrary: drawn)
  case Nil
  then show ?case by simp
next
  case (Cons edge rest)
  let ?e = "getEdge (gCopy st) edge"
  from Cons.prems have rest: "drawEdges_loop st rest d =
       Inr (map (drawEdge_Edge st)
         (keepFirst endpoints
            (filter (\<lambda>e. isSelectedComponent st (source e) \<and> endpoints e \<notin> d)
               (map (getEdge (gCopy st)) rest))))" for d
    by (intro Cons.IH) simp
  from Cons.prems assms show ?case
    by (simp add: drawEdges_loop_step rest conj_ac)
qed

lemma visibleEdges_Ball:
  "(\<forall>e\<in>set (visibleEdges st). P e) \<longleftrightarrow>
   (\<forall>edge\<in>set (edges (gCopy st)). isSelectedComponent st (source (getEdge (gCopy st) edge)) \<longrightarrow>
      P (getEdge (gCopy st) edge))"
  by (auto simp: visibleEdges_def edgeList_def)

lemma visibleEdges_eq:
  "visibleEdges st = filter (\<lambda>e. isSelectedComponent st (source e) \<and> endpoints e \<notin> {})
     (map (getEdge (gCopy st)) (edges (gCopy st)))"
  by (simp add: visibleEdges_def edgeList_def)

lemma exampleGraph_edges2 [simp]:
  "edges (exampleGraph ns pos [a, b]) = [0, 1]"
  "getEdge (exampleGraph ns pos [a, b]) 0 = a"
  "getEdge (exampleGraph ns pos [a, b]) 1 = b"
  by (simp_all add: exampleGraph_def upt_rec)

lemma exampleGraph_edges3 [simp]:
  "edges (exampleGraph ns pos [a, b, c]) = [0, 1, 2]"
  "getEdge (exampleGraph ns pos [a, b, c]) 0 = a"
  "getEdge (exampleGraph ns pos [a, b, c]) 1 = b"
  "getEdge (exampleGraph ns pos [a, b, c]) 2 = c"
  by (simp_all add: exampleGraph_def upt_rec)

text \<open>
  The statement of C1 for unordered pairs fails: the table is indexed by
  \<^verbatim>\<open>[e.source][e.target]\<close>, and drawing the edge 0 \<rightarrow> 1 marks the cell (0, 1) only. For
  the graph with nodes 0 and 1 and the edges 0 \<rightarrow> 1 and 1 \<rightarrow> 0 the pass emits two edge
  primitives, one per direction (each with its own arrowhead).
\<close>

theorem drawEdges_unordered_counterexample:
  "drawEdges (exampleState (exampleGraph [0, 1] (\<lambda>n. if n = 0 then Point 0 0 0 else Point 10 0 0)
       [\<lparr>source = 0, target = 1, weight = 1, material = 0\<rparr>,
        \<lparr>source = 1, target = 0, weight = 1, material = 0\<rparr>]))
   = Inr [drawEdge_Edge (exampleState (exampleGraph [0, 1] (\<lambda>n. if n = 0 then Point 0 0 0 else Point 10 0 0)
            [\<lparr>source = 0, target = 1, weight = 1, material = 0\<rparr>,
             \<lparr>source = 1, target = 0, weight = 1, material = 0\<rparr>]))
          \<lparr>source = 0, target = 1, weight = 1, material = 0\<rparr>,
          drawEdge_Edge (exampleState (exampleGraph [0, 1] (\<lambda>n. if n = 0 then Point 0 0 0 else Point 10 0 0)
            [\<lparr>source = 0, target = 1, weight = 1, material = 0\<rparr>,
             \<lparr>source = 1, target = 0, weight = 1, material = 0\<rparr>]))
          \<lparr>source = 1, target = 0, weight = 1, material = 0\<rparr>]"
  by (simp add: drawEdges_def drawEdges_loop_step exampleState_simps isSelectedComponent_def
      inTable_def endpoints_def)

text \<open>
  C1 (amended). In the render path without bundling, when the endpoints of the edges
  that pass the component filter lie within the table, \<^verbatim>\<open>drawEdges\<close> emits, for every
  ordered pair (source, target) with at least one such edge, exactly one edge primitive,
  however many parallel edges the pair has, and that primitive is drawn from the first
  edge of the pair in iteration order (so with its material and width): the output is
  the drawing of the list that keeps the first edge of every ordered pair.
\<close>

theorem drawEdges_one_per_ordered_pair:
  assumes "\<not> bundleButton st"
    and "\<forall>e\<in>set (visibleEdges st). inTable (source e) (target e)"
  shows "drawEdges st = Inr (map (drawEdge_Edge st) (keepFirst endpoints (visibleEdges st))) \<and>
     (\<forall>p\<in>endpoints ` set (visibleEdges st).
        length (filter (\<lambda>e. endpoints e = p) (keepFirst endpoints (visibleEdges st))) = 1 \<and>
        find (\<lambda>e. endpoints e = p) (keepFirst endpoints (visibleEdges st))
          = find (\<lambda>e. endpoints e = p) (visibleEdges st))"
proof -
  from assms(2) have inside: "\<forall>edge\<in>set (edges (gCopy st)).
      isSelectedComponent st (source (getEdge (gCopy st) edge)) \<longrightarrow>
      inTable (source (getEdge (gCopy st) edge)) (target (getEdge (gCopy st) edge))"
    by (simp only: visibleEdges_Ball)
  have "drawEdges st = Inr (map (drawEdge_Edge st) (keepFirst endpoints (visibleEdges st)))"
    unfolding drawEdges_def visibleEdges_eq
    by (rule drawEdges_loop_dedup [OF assms(1) inside])
  then show ?thesis
    using keepFirst_one_per_key [of _ endpoints "visibleEdges st"] by blast
qed

theorem drawEdges_one_per_ordered_pair_witness:
  "\<not> bundleButton (exampleState (exampleGraph [0, 1] (\<lambda>n. if n = 0 then Point 0 0 0 else Point 10 0 0)
       [\<lparr>source = 0, target = 1, weight = 1, material = 3\<rparr>,
        \<lparr>source = 0, target = 1, weight = 2, material = 4\<rparr>,
        \<lparr>source = 1, target = 0, weight = 1, material = 5\<rparr>])) \<and>
   visibleEdges (exampleState (exampleGraph [0, 1] (\<lambda>n. if n = 0 then Point 0 0 0 else Point 10 0 0)
       [\<lparr>source = 0, target = 1, weight = 1, material = 3\<rparr>,
        \<lparr>source = 0, target = 1, weight = 2, material = 4\<rparr>,
        \<lparr>source = 1, target = 0, weight = 1, material = 5\<rparr>]))
     = [\<lparr>source = 0, target = 1, weight = 1, material = 3\<rparr>,
        \<lparr>source = 0, target = 1, weight = 2, material = 4\<rparr>,
        \<lparr>source = 1, target = 0, weight = 1, material = 5\<rparr>] \<and>
   drawEdges (exampleState (exampleGraph [0, 1] (\<lambda>n. if n = 0 then Point 0 0 0 else Point 10 0 0)
       [\<lparr>source = 0, target = 1, weight = 1, material = 3\<rparr>,
        \<lparr>source = 0, target = 1, weight = 2, material = 4\<rparr>,
        \<lparr>source = 1, target = 0, weight = 1, material = 5\<rparr>]))
   = Inr [drawEdge_Edge (exampleState (exampleGraph [0, 1] (\<lambda>n. if n = 0 then Point 0 0 0 else Point 10 0 0)
            [\<lparr>source = 0, target = 1, weight = 1, material = 3\<rparr>,
             \<lparr>source = 0, target = 1, weight = 2, material = 4\<rparr>,
             \<lparr>source = 1, target = 0, weight = 1, material = 5\<rparr>]))
          \<lparr>source = 0, target = 1, weight = 1, material = 3\<rparr>,
          drawEdge_Edge (exampleState (exampleGraph [0, 1] (\<lambda>n. if n = 0 then Point 0 0 0 else Point 10 0 0)
            [\<lparr>source = 0, target = 1, weight = 1, material = 3\<rparr>,
             \<lparr>source = 0, target = 1, weight = 2, material = 4\<rparr>,
             \<lparr>source = 1, target = 0, weight = 1, material = 5\<rparr>]))
          \<lparr>source = 1, target = 0, weight = 1, material = 5\<rparr>]"
  using drawEdges_one_per_ordered_pair [of "exampleState (exampleGraph [0, 1]
       (\<lambda>n. if n = 0 then Point 0 0 0 else Point 10 0 0)
       [\<lparr>source = 0, target = 1, weight = 1, material = 3\<rparr>,
        \<lparr>source = 0, target = 1, weight = 2, material = 4\<rparr>,
        \<lparr>source = 1, target = 0, weight = 1, material = 5\<rparr>])"]
  by (simp add: visibleEdges_def edgeList_def exampleState_simps isSelectedComponent_def
      inTable_def endpoints_def)

text \<open>
  C9. The table of drawn edges has 1000 by 1000 cells and is indexed by the source and
  target of an edge without a check. When every edge endpoint is an index from 0 and
  below 1000, \<^verbatim>\<open>drawEdges\<close> stays within the table and returns its output; when an
  edge that reaches the table lookup (one that passes the component filter) has an
  endpoint of 1000 or more, the access is out of bounds; and an access is out of bounds
  exactly when such an edge has an endpoint outside the table.
\<close>

theorem drawEdges_table_bounds:
  "((\<forall>e\<in>set (edgeList st). 0 \<le> source e \<and> source e < 1000 \<and> 0 \<le> target e \<and> target e < 1000)
      \<longrightarrow> (\<exists>out. drawEdges st = Inr out)) \<and>
   ((\<exists>e\<in>set (visibleEdges st). 1000 \<le> source e \<or> 1000 \<le> target e)
      \<longrightarrow> drawEdges st = Inl OutOfBounds) \<and>
   (drawEdges st = Inl OutOfBounds
      \<longleftrightarrow> (\<exists>e\<in>set (visibleEdges st). \<not> inTable (source e) (target e)))"
proof -
  have fault: "drawEdges st = Inl OutOfBounds"
    if "\<exists>e\<in>set (visibleEdges st). \<not> inTable (source e) (target e)"
  proof -
    from that have "\<exists>edge\<in>set (edges (gCopy st)).
        isSelectedComponent st (source (getEdge (gCopy st) edge)) \<and>
        \<not> inTable (source (getEdge (gCopy st) edge)) (target (getEdge (gCopy st) edge))"
      by (auto simp: visibleEdges_def edgeList_def)
    then show ?thesis
      unfolding drawEdges_def by (rule drawEdges_loop_fault)
  qed
  have returns: "\<exists>out. drawEdges st = Inr out"
    if "\<forall>e\<in>set (visibleEdges st). inTable (source e) (target e)"
  proof -
    from that have "\<forall>edge\<in>set (edges (gCopy st)).
        isSelectedComponent st (source (getEdge (gCopy st) edge)) \<longrightarrow>
        inTable (source (getEdge (gCopy st) edge)) (target (getEdge (gCopy st) edge))"
      by (simp only: visibleEdges_Ball)
    then show ?thesis
      unfolding drawEdges_def by (rule drawEdges_loop_returns)
  qed
  have first: "\<exists>out. drawEdges st = Inr out"
    if "\<forall>e\<in>set (edgeList st). 0 \<le> source e \<and> source e < 1000 \<and> 0 \<le> target e \<and> target e < 1000"
    using that by (intro returns) (auto simp: visibleEdges_def inTable_def)
  have second: "drawEdges st = Inl OutOfBounds"
    if "\<exists>e\<in>set (visibleEdges st). 1000 \<le> source e \<or> 1000 \<le> target e"
    using that by (intro fault) (force simp: inTable_def)
  have third: "\<exists>e\<in>set (visibleEdges st). \<not> inTable (source e) (target e)"
    if "drawEdges st = Inl OutOfBounds"
  proof (rule ccontr)
    assume "\<not> (\<exists>e\<in>set (visibleEdges st). \<not> inTable (source e) (target e))"
    then have "\<forall>e\<in>set (visibleEdges st). inTable (source e) (target e)" by blast
    from returns [OF this] that show False by auto
  qed
  from first second third fault show ?thesis by blast
qed

theorem drawEdges_table_bounds_witness:
  "drawEdges (exampleState (exampleGraph [0, 1000] (\<lambda>n. Point 0 0 0)
       [\<lparr>source = 0, target = 999, weight = 1, material = 0\<rparr>,
        \<lparr>source = 1000, target = 0, weight = 1, material = 0\<rparr>]))
     = Inl OutOfBounds \<and>
   drawEdges (exampleState (exampleGraph [0, 999] (\<lambda>n. Point 0 0 0)
       [\<lparr>source = 0, target = 999, weight = 1, material = 0\<rparr>,
        \<lparr>source = 999, target = 0, weight = 1, material = 0\<rparr>]))
     \<noteq> Inl OutOfBounds"
  using
    drawEdges_table_bounds [of "exampleState (exampleGraph [0, 1000] (\<lambda>n. Point 0 0 0)
       [\<lparr>source = 0, target = 999, weight = 1, material = 0\<rparr>,
        \<lparr>source = 1000, target = 0, weight = 1, material = 0\<rparr>])"]
    drawEdges_table_bounds [of "exampleState (exampleGraph [0, 999] (\<lambda>n. Point 0 0 0)
       [\<lparr>source = 0, target = 999, weight = 1, material = 0\<rparr>,
        \<lparr>source = 999, target = 0, weight = 1, material = 0\<rparr>])"]
  by (simp add: visibleEdges_def edgeList_def exampleState_simps isSelectedComponent_def
      inTable_def)

section \<open>The overlays\<close>

lemma drawNode_length: "length (drawNode H st d node) = 1"
  by (simp add: drawNode_def Let_def drawTextureNode_def split: prod.splits)

lemma drawSpanningTree_length:
  "length (drawSpanningTree H st d) = 1 + 2 * length (predecessorVector st)"
proof -
  have "length (concat (map (\<lambda>i. drawNode H st d (int i) @ [f i]) xs)) = 2 * length xs"
    for f :: "nat \<Rightarrow> gl" and xs
    by (induction xs) (simp_all add: drawNode_length)
  then show ?thesis
    by (simp add: drawSpanningTree_def)
qed

lemma isNode_funpow:
  assumes "\<forall>i. isNode pv i \<longrightarrow> isNode pv (predecessor pv i)" and "isNode pv i"
  shows "isNode pv ((predecessor pv ^^ k) i)"
  using assms by (induction k) simp_all

lemma root_within_node_count:
  assumes closed: "\<forall>i. isNode pv i \<longrightarrow> isNode pv (predecessor pv i)"
    and node: "isNode pv i"
    and root: "\<exists>k. predecessor pv ((predecessor pv ^^ k) i) = (predecessor pv ^^ k) i"
  shows "\<exists>k<length pv. predecessor pv ((predecessor pv ^^ k) i) = (predecessor pv ^^ k) i"
proof -
  let ?f = "predecessor pv"
  let ?R = "\<lambda>k. ?f ((?f ^^ k) i) = (?f ^^ k) i"
  define k where "k = (LEAST k. ?R k)"
  from root have Rk: "?R k"
    unfolding k_def by (rule LeastI_ex)
  have least: "\<not> ?R j" if "j < k" for j
    using that unfolding k_def by (rule not_less_Least)
  have inj: "inj_on (\<lambda>j. (?f ^^ j) i) {..k}"
  proof (rule linorder_inj_onI)
    fix a b
    assume ab: "a < b" and "a \<in> {..k}" and "b \<in> {..k}"
    then have bk: "b \<le> k" by simp
    show "(?f ^^ a) i \<noteq> (?f ^^ b) i"
    proof
      assume eq: "(?f ^^ a) i = (?f ^^ b) i"
      have "(?f ^^ ((k - b) + a)) i = (?f ^^ (k - b)) ((?f ^^ a) i)"
        by (simp add: funpow_add)
      also have "\<dots> = (?f ^^ (k - b)) ((?f ^^ b) i)"
        by (simp only: eq)
      also have "\<dots> = (?f ^^ ((k - b) + b)) i"
        by (simp add: funpow_add)
      also have "\<dots> = (?f ^^ k) i"
        using bk by simp
      finally have "(?f ^^ ((k - b) + a)) i = (?f ^^ k) i" .
      with Rk have "?R ((k - b) + a)" by simp
      moreover have "(k - b) + a < k" using ab bk by arith
      ultimately show False using least by blast
    qed
  qed (simp add: linear)
  have sub: "(\<lambda>j. (?f ^^ j) i) ` {..k} \<subseteq> {0..<int (length pv)}"
    using isNode_funpow [OF closed node] by (auto simp: isNode_def)
  have "card {..k} \<le> card {0..<int (length pv)}"
    by (rule card_inj_on_le [OF inj sub]) simp
  then have "k < length pv" by simp
  with Rk show ?thesis by blast
qed

lemma drawShortestPath_loop_enough:
  assumes closed: "\<forall>i. isNode (predecessorVector st) i \<longrightarrow> isNode (predecessorVector st) (predecessor (predecessorVector st) i)"
  shows "isNode (predecessorVector st) i \<Longrightarrow>
     predecessor (predecessorVector st) ((predecessor (predecessorVector st) ^^ k) i)
       = (predecessor (predecessorVector st) ^^ k) i \<Longrightarrow>
     k < fuel \<Longrightarrow> \<exists>out. drawShortestPath_loop H st d fuel i = Some (Inr out)"
proof (induction k arbitrary: i fuel)
  case 0
  then obtain m where fuel: "fuel = Suc m" by (cases fuel) simp_all
  from 0 show ?case
    by (simp add: fuel isNode_def predecessor_def)
next
  case (Suc k)
  then obtain m where fuel: "fuel = Suc m" and km: "k < m" by (cases fuel) simp_all
  let ?p = "predecessor (predecessorVector st) i"
  from closed Suc.prems(1) have node: "isNode (predecessorVector st) ?p" by blast
  from Suc.prems(2) have root: "predecessor (predecessorVector st) ((predecessor (predecessorVector st) ^^ k) ?p)
       = (predecessor (predecessorVector st) ^^ k) ?p"
    by (simp add: funpow_swap1)
  from Suc.IH [OF node root km] obtain out where
    "drawShortestPath_loop H st d m ?p = Some (Inr out)" by blast
  then show ?case
    using Suc.prems(1) by (simp add: fuel isNode_def predecessor_def Let_def)
qed

lemma predecessorTree_example: "predecessorTree [0, 0, 1]"
proof -
  have cases: "i = 0 \<or> i = 1 \<or> i = 2" if "isNode [0, 0, 1] i" for i
    using that by (auto simp: isNode_def)
  have "isNode [0, 0, 1] (predecessor [0, 0, 1] i)" if "isNode [0, 0, 1] i" for i
    using cases [OF that] by (auto simp: isNode_def predecessor_def)
  moreover have "\<exists>k. predecessor [0, 0, 1] ((predecessor [0, 0, 1] ^^ k) i) = (predecessor [0, 0, 1] ^^ k) i"
    if "isNode [0, 0, 1] i" for i
    using cases [OF that]
    by (intro exI [of _ 2]) (auto simp: predecessor_def numeral_2_eq_2)
  ultimately show ?thesis
    unfolding predecessorTree_def by blast
qed

text \<open>
  C6. A predecessor vector is what a shortest-path or spanning-tree computation leaves,
  the only values \<^verbatim>\<open>predecessorVector\<close> is assigned: one entry per node, every entry
  the index of a node, and every chain of predecessors arriving at a node that is its
  own predecessor (the self-loop marks a root or "no path"). For every such vector and
  every selected node that is a node (or is the previous node), the walk of
  \<^verbatim>\<open>drawShortestPath\<close> ends within as many entries into its loop body as there are
  nodes, and on a node that is its own predecessor the guard ends it at once;
  \<^verbatim>\<open>drawSpanningTree\<close> makes one pass of its loop body per entry, each drawing one
  node and one edge after the material is bound.
\<close>

theorem overlay_traversals_terminate:
  assumes "predecessorTree (predecessorVector st)"
    and "isNode (predecessorVector st) (selectedNode st) \<or> selectedNode st = previousNode st"
  shows "(\<exists>out. drawShortestPath H (length (predecessorVector st)) st d = Some (Inr out)) \<and>
     (predecessor (predecessorVector st) (selectedNode st) = selectedNode st
        \<longrightarrow> drawShortestPath_loop H st d 1 (selectedNode st) = Some (Inr [])) \<and>
     length (drawSpanningTree H st d) = 1 + 2 * length (predecessorVector st)"
proof -
  let ?pv = "predecessorVector st"
  from assms(1) have closed: "\<forall>i. isNode ?pv i \<longrightarrow> isNode ?pv (predecessor ?pv i)"
    and roots: "\<forall>i. isNode ?pv i \<longrightarrow> (\<exists>k. predecessor ?pv ((predecessor ?pv ^^ k) i) = (predecessor ?pv ^^ k) i)"
    by (simp_all add: predecessorTree_def)
  have walk: "\<exists>out. drawShortestPath_loop H st d (length ?pv) (selectedNode st) = Some (Inr out)"
  proof (cases "selectedNode st = previousNode st")
    case True
    then show ?thesis by (cases "length ?pv") simp_all
  next
    case False
    with assms(2) have node: "isNode ?pv (selectedNode st)" by simp
    with roots have "\<exists>k. predecessor ?pv ((predecessor ?pv ^^ k) (selectedNode st))
        = (predecessor ?pv ^^ k) (selectedNode st)" by blast
    from root_within_node_count [OF closed node this] obtain k where
      "k < length ?pv" and
      "predecessor ?pv ((predecessor ?pv ^^ k) (selectedNode st)) = (predecessor ?pv ^^ k) (selectedNode st)"
      by blast
    with drawShortestPath_loop_enough [OF closed node] show ?thesis by blast
  qed
  then have path: "\<exists>out. drawShortestPath H (length ?pv) st d = Some (Inr out)"
    by (auto simp: drawShortestPath_def)
  have guard: "drawShortestPath_loop H st d 1 (selectedNode st) = Some (Inr [])"
    if "predecessor ?pv (selectedNode st) = selectedNode st"
    using that assms(2) by (auto simp: predecessor_def isNode_def)
  from path guard show ?thesis
    by (simp add: drawSpanningTree_length)
qed

theorem overlay_traversals_terminate_witness:
  "predecessorTree (predecessorVector ((exampleState (exampleGraph [0, 1, 2] (\<lambda>n. Point 0 0 0) []))
      \<lparr>predecessorVector := [0, 0, 1], selectedNode := 2, previousNode := 7\<rparr>)) \<and>
   isNode (predecessorVector ((exampleState (exampleGraph [0, 1, 2] (\<lambda>n. Point 0 0 0) []))
      \<lparr>predecessorVector := [0, 0, 1], selectedNode := 2, previousNode := 7\<rparr>)) 2 \<and>
   drawShortestPath exampleHeaders 3 ((exampleState (exampleGraph [0, 1, 2] (\<lambda>n. Point 0 0 0) []))
      \<lparr>predecessorVector := [0, 0, 1], selectedNode := 2, previousNode := 7\<rparr>) exampleDataItem
     \<noteq> None \<and>
   drawShortestPath exampleHeaders 2 ((exampleState (exampleGraph [0, 1, 2] (\<lambda>n. Point 0 0 0) []))
      \<lparr>predecessorVector := [0, 0, 1], selectedNode := 2, previousNode := 7\<rparr>) exampleDataItem
     = None"
  using overlay_traversals_terminate [of "(exampleState (exampleGraph [0, 1, 2] (\<lambda>n. Point 0 0 0) []))
      \<lparr>predecessorVector := [0, 0, 1], selectedNode := 2, previousNode := 7\<rparr>" exampleHeaders exampleDataItem]
    predecessorTree_example
  by (simp add: isNode_def drawShortestPath_def numeral_2_eq_2 numeral_3_eq_3 Let_def)

section \<open>The cached display lists\<close>

lemma drawEdges_returns:
  assumes "\<forall>e\<in>set (visibleEdges st). inTable (source e) (target e)"
  shows "\<exists>out. drawEdges st = Inr out"
proof -
  from assms have "\<forall>edge\<in>set (edges (gCopy st)).
      isSelectedComponent st (source (getEdge (gCopy st) edge)) \<longrightarrow>
      inTable (source (getEdge (gCopy st) edge)) (target (getEdge (gCopy st) edge))"
    by (simp only: visibleEdges_Ball)
  then show ?thesis
    unfolding drawEdges_def by (rule drawEdges_loop_returns)
qed

lemma drawTextureNode_lists:
  "drawTextureNode st (d\<lparr>graphListVersion := v, nodeList := l1, arrowList := l2\<rparr>) n = drawTextureNode st d n"
  "drawTextureNode st (d\<lparr>graphList := l3\<rparr>) n = drawTextureNode st d n"
  by (simp_all add: drawTextureNode_def)

lemma drawNode_lists:
  "drawNode H st (d\<lparr>graphListVersion := v, nodeList := l1, arrowList := l2\<rparr>) n = drawNode H st d n"
  "drawNode H st (d\<lparr>graphList := l3\<rparr>) n = drawNode H st d n"
  by (simp_all add: drawNode_def drawTextureNode_lists cong: if_cong)

lemma drawNodes_lists:
  "drawNodes H st (d\<lparr>graphListVersion := v, nodeList := l1, arrowList := l2\<rparr>) f = drawNodes H st d f"
  "drawNodes H st (d\<lparr>graphList := l3\<rparr>) f = drawNodes H st d f"
  by (simp_all add: drawNodes_def drawNode_lists cong: if_cong)

lemma buildGraphList_rebuilt:
  assumes "drawEdges st = Inr es"
  shows "buildGraphList H st d = Inr
     (d\<lparr>graphListVersion := getVersion (gCopy st),
        nodeList := [Sphere (nodeRadius st)],
        arrowList := [ArrowCone (arrowWidth st) (arrowHeight st), ArrowDisk (arrowWidth st)],
        graphList :=
          (if getTextureNodeMode (gCopy st) = ''align'' then drawNodes H st d ''image''
           else drawNodes H st d (drawNodes_default_filter H)) @ es\<rparr>)"
  by (simp add: buildGraphList_def assms Let_def drawNodes_lists)

lemma drawShortestPath_returns:
  assumes "predecessorTree (predecessorVector st)"
    and "isNode (predecessorVector st) (selectedNode st) \<or> selectedNode st = previousNode st"
    and "length (predecessorVector st) \<le> fuel"
  shows "\<exists>out. drawShortestPath H fuel st d = Some (Inr out)"
proof -
  let ?pv = "predecessorVector st"
  from assms(1) have closed: "\<forall>i. isNode ?pv i \<longrightarrow> isNode ?pv (predecessor ?pv i)"
    and roots: "\<forall>i. isNode ?pv i \<longrightarrow> (\<exists>k. predecessor ?pv ((predecessor ?pv ^^ k) i) = (predecessor ?pv ^^ k) i)"
    by (simp_all add: predecessorTree_def)
  have "\<exists>out. drawShortestPath_loop H st d fuel (selectedNode st) = Some (Inr out)"
  proof (cases "selectedNode st = previousNode st")
    case True
    then show ?thesis by (cases fuel) simp_all
  next
    case False
    with assms(2) have node: "isNode ?pv (selectedNode st)" by simp
    with roots have "\<exists>k. predecessor ?pv ((predecessor ?pv ^^ k) (selectedNode st))
        = (predecessor ?pv ^^ k) (selectedNode st)" by blast
    from root_within_node_count [OF closed node this] obtain k where
      "k < length ?pv" and
      "predecessor ?pv ((predecessor ?pv ^^ k) (selectedNode st)) = (predecessor ?pv ^^ k) (selectedNode st)"
      by blast
    with drawShortestPath_loop_enough [OF closed node, of k fuel] assms(3) show ?thesis by simp
  qed
  then show ?thesis
    by (auto simp: drawShortestPath_def)
qed

lemma exampleGraph_edges1 [simp]:
  "edges (exampleGraph ns pos [a]) = [0]"
  "getEdge (exampleGraph ns pos [a]) 0 = a"
  by (simp_all add: exampleGraph_def)

text \<open>
  The statement of C4 for every call of \<^verbatim>\<open>display\<close> fails while the logo is shown:
  \<^verbatim>\<open>display\<close> draws the logo and returns before it compares the versions, so a stale
  cache stays stale (here the cache holds version 0 and the empty graph copy version 1).
\<close>

theorem display_logo_counterexample:
  "display exampleHeaders 0 ((exampleState (exampleGraph [] (\<lambda>n. Point 0 0 0) []))\<lparr>showingLogo := True\<rparr>)
      exampleDataItem = Some (Inr (exampleDataItem, [Logo])) \<and>
   graphListVersion exampleDataItem
     \<noteq> getVersion (gCopy ((exampleState (exampleGraph [] (\<lambda>n. Point 0 0 0) []))\<lparr>showingLogo := True\<rparr>))"
  by (simp add: display_def exampleDataItem_def exampleState_simps exampleGraph_simps)

text \<open>
  C4 (amended). On every call of \<^verbatim>\<open>display\<close> that is not showing the logo and whose
  drawing completes (the edges that pass the component filter lie within the table of
  drawn edges and, when the shortest-path overlay is drawn, the predecessor vector is a
  predecessor tree walked with fuel for its node count): when the version of the cached
  graph list equals the version of the graph copy the data item is returned as it is;
  otherwise it is rebuilt by \<^verbatim>\<open>buildGraphList\<close>, wholesale (the rebuilt item is the
  same whatever the old lists and the old version were), and in both cases the cached
  version equals the version of the graph copy afterwards.
\<close>

theorem display_cache:
  assumes "\<not> showingLogo st"
    and "\<forall>e\<in>set (visibleEdges st). inTable (source e) (target e)"
    and "shortestPathButton st \<and> \<not> spanningTreeButton st \<longrightarrow>
         predecessorTree (predecessorVector st) \<and>
         (isNode (predecessorVector st) (selectedNode st) \<or> selectedNode st = previousNode st) \<and>
         length (predecessorVector st) \<le> fuel"
  shows "\<exists>d' out. display H fuel st d = Some (Inr (d', out)) \<and>
     graphListVersion d' = getVersion (gCopy st) \<and>
     (graphListVersion d = getVersion (gCopy st) \<longrightarrow> d' = d) \<and>
     (graphListVersion d \<noteq> getVersion (gCopy st) \<longrightarrow>
        buildGraphList H st d = Inr d' \<and>
        (\<forall>v l1 l2 l3. buildGraphList H st
            (d\<lparr>graphListVersion := v, nodeList := l1, arrowList := l2, graphList := l3\<rparr>) = Inr d'))"
proof -
  from drawEdges_returns [OF assms(2)] obtain es where es: "drawEdges st = Inr es" by blast
  define cached where "cached =
    (if graphListVersion d \<noteq> getVersion (gCopy st) then buildGraphList H st d else Inr d)"
  define d' where "d' =
    (if graphListVersion d \<noteq> getVersion (gCopy st)
     then d\<lparr>graphListVersion := getVersion (gCopy st),
        nodeList := [Sphere (nodeRadius st)],
        arrowList := [ArrowCone (arrowWidth st) (arrowHeight st), ArrowDisk (arrowWidth st)],
        graphList :=
          (if getTextureNodeMode (gCopy st) = ''align'' then drawNodes H st d ''image''
           else drawNodes H st d (drawNodes_default_filter H)) @ es\<rparr>
     else d)"
  have cached: "cached = Inr d'"
    by (simp add: cached_def d'_def buildGraphList_rebuilt [OF es])
  have version: "graphListVersion d' = getVersion (gCopy st)"
    by (simp add: d'_def)
  have reuse: "d' = d" if "graphListVersion d = getVersion (gCopy st)"
    using that by (simp add: d'_def)
  have rebuild: "buildGraphList H st d = Inr d'" if "graphListVersion d \<noteq> getVersion (gCopy st)"
    using that by (simp add: d'_def buildGraphList_rebuilt [OF es])
  have wholesale: "buildGraphList H st
      (d\<lparr>graphListVersion := v, nodeList := l1, arrowList := l2, graphList := l3\<rparr>) = Inr d'"
    if "graphListVersion d \<noteq> getVersion (gCopy st)" for v l1 l2 l3
    using that by (simp add: d'_def buildGraphList_rebuilt [OF es] drawNodes_lists)
  have "\<exists>out. display H fuel st d = Some (Inr (d', out))"
  proof (cases "shortestPathButton st \<and> \<not> spanningTreeButton st")
    case True
    with assms(3) drawShortestPath_returns [of st fuel H d'] obtain path where
      "drawShortestPath H fuel st d' = Some (Inr path)" by blast
    with True assms(1) cached show ?thesis
      unfolding display_def cached_def by (simp add: Let_def)
  next
    case False
    with assms(1) cached show ?thesis
      unfolding display_def cached_def by (auto simp: Let_def)
  qed
  with version reuse rebuild wholesale show ?thesis by blast
qed

theorem display_cache_witness:
  "\<not> showingLogo (exampleState (exampleGraph [0, 1] (\<lambda>n. if n = 0 then Point 0 0 0 else Point 10 0 0)
       [\<lparr>source = 0, target = 1, weight = 1, material = 0\<rparr>])) \<and>
   graphListVersion exampleDataItem = 0 \<and>
   getVersion (gCopy (exampleState (exampleGraph [0, 1] (\<lambda>n. if n = 0 then Point 0 0 0 else Point 10 0 0)
       [\<lparr>source = 0, target = 1, weight = 1, material = 0\<rparr>]))) = 1 \<and>
   map_option (map_sum id (graphListVersion \<circ> fst))
     (display exampleHeaders 0
        (exampleState (exampleGraph [0, 1] (\<lambda>n. if n = 0 then Point 0 0 0 else Point 10 0 0)
           [\<lparr>source = 0, target = 1, weight = 1, material = 0\<rparr>]))
        exampleDataItem) = Some (Inr 1) \<and>
   map_option (map_sum id (length \<circ> graphList \<circ> fst))
     (display exampleHeaders 0
        (exampleState (exampleGraph [0, 1] (\<lambda>n. if n = 0 then Point 0 0 0 else Point 10 0 0)
           [\<lparr>source = 0, target = 1, weight = 1, material = 0\<rparr>]))
        exampleDataItem) = Some (Inr 3)"
  using display_cache [of "exampleState (exampleGraph [0, 1]
         (\<lambda>n. if n = 0 then Point 0 0 0 else Point 10 0 0)
         [\<lparr>source = 0, target = 1, weight = 1, material = 0\<rparr>])" 0 exampleHeaders exampleDataItem]
  by (simp add: display_def buildGraphList_def drawEdges_def drawEdges_loop_step drawNodes_def
      drawNode_def exampleState_simps exampleGraph_simps exampleDataItem_def exampleHeaders_def
      isSelectedComponent_def inTable_def endpoints_def Let_def)

section \<open>At most one worker runs\<close>

lemma atMostOneRunning_iff:
  "atMostOneRunning st \<longleftrightarrow>
     \<not> (staticLayout st = Running \<and> dynamicLayout st = Running) \<and>
     \<not> (staticLayout st = Running \<and> edgeBundler st = Running) \<and>
     \<not> (dynamicLayout st = Running \<and> edgeBundler st = Running)"
  by (simp add: atMostOneRunning_def)

lemma lifecycle_not_Running [simp]: "l \<noteq> Running \<longleftrightarrow> l = Stopped"
  by (cases l) simp_all

lemma stopLayout_fields [simp]:
  "staticLayout (stopLayout st) = Stopped" "dynamicLayout (stopLayout st) = Stopped"
  "edgeBundler (stopLayout st) = Stopped" "layout (stopLayout st) = layout st"
  "skipLayout (stopLayout st) = skipLayout st" "g (stopLayout st) = g st"
  "layoutRadioBox (stopLayout st) = layoutRadioBox st"
  by (simp_all add: stopLayout_def stop_def)

lemma invariant_stopLayout: "lifecycleInvariant (stopLayout st)"
  by (simp add: lifecycleInvariant_def atMostOneRunning_iff runningIsCurrent_def)

lemma invariant_startLayout:
  "lifecycleInvariant st \<Longrightarrow> edgeBundler st = Stopped \<Longrightarrow> lifecycleInvariant (startLayout st)"
  by (cases "layout st")
    (auto simp: lifecycleInvariant_def atMostOneRunning_iff runningIsCurrent_def startLayout_def
      start_def)

lemma startLayout_bundler [simp]: "edgeBundler (startLayout st) = edgeBundler st"
  by (cases "layout st") (simp_all add: startLayout_def)

lemma invariant_resumeLayout:
  "lifecycleInvariant st \<Longrightarrow> edgeBundler st = Stopped \<Longrightarrow> lifecycleInvariant (resumeLayout st)"
  by (simp add: resumeLayout_def invariant_startLayout)

lemma invariant_setLayoutType:
  "lifecycleInvariant st \<Longrightarrow> lifecycleInvariant (setLayoutType H type st)"
  by (cases "layout st")
    (auto simp: lifecycleInvariant_def atMostOneRunning_iff runningIsCurrent_def
      setLayoutType_def Let_def stop_def)

lemma setLayoutType_bundler:
  "edgeBundler st = Stopped \<Longrightarrow> edgeBundler (setLayoutType H type st) = Stopped"
  by (simp add: setLayoutType_def Let_def stop_def)

lemma setLayoutType_dynamic_bundler:
  "edgeBundler (setLayoutType H (LAYOUT_DYNAMIC H) st) = Stopped"
  by (simp add: setLayoutType_def Let_def stop_def)

lemma invariant_bundleCallback:
  "lifecycleInvariant st \<Longrightarrow> lifecycleInvariant (bundleCallback set' st)"
proof (cases "getNodeCount (g st) = 0")
  case True
  then show "lifecycleInvariant st \<Longrightarrow> ?thesis" by (simp add: bundleCallback_def)
next
  case False
  assume inv: "lifecycleInvariant st"
  show ?thesis
  proof (cases set')
    case True
    with False show ?thesis
      by (simp add: bundleCallback_def Let_def lifecycleInvariant_def atMostOneRunning_iff
          runningIsCurrent_def start_def)
  next
    case off: False
    have "lifecycleInvariant (st\<lparr>edgeBundler := stop (edgeBundler st), g := update (g st)\<rparr>)"
      using inv by (simp add: lifecycleInvariant_def atMostOneRunning_iff runningIsCurrent_def stop_def)
    then have "lifecycleInvariant (resumeLayout (st\<lparr>edgeBundler := stop (edgeBundler st), g := update (g st)\<rparr>))"
      by (rule invariant_resumeLayout) (simp add: stop_def)
    with False off show ?thesis by (simp add: bundleCallback_def)
  qed
qed

lemma invariant_resetNavigationCallback:
  "lifecycleInvariant (resetNavigationCallback H st)"
proof -
  obtain center radius where loc: "locate H (g (stopLayout st)) = (center, radius)"
    by (cases "locate H (g (stopLayout st))")
  define st4 where "st4 =
    (stopLayout st)\<lparr>g := moveNodes H (case center of Point cx cy cz \<Rightarrow> Point (- cx) (- cy) (- cz)) (g st),
       nodeRadius := radius / 80, arrowHeight := radius / 80 / 2, arrowWidth := radius / 80 / 2 / 2,
       edgeThickness := radius / 80 / 7, edgeOffset := radius / 80 + radius / 80 / 2,
       navigation := (Point 0 0 0, radius),
       g := update (moveNodes H (case center of Point cx cy cz \<Rightarrow> Point (- cx) (- cy) (- cz)) (g st))\<rparr>"
  have eq: "resetNavigationCallback H st = (if \<not> layoutIsStopped st then resumeLayout st4 else st4)"
    using loc by (simp add: resetNavigationCallback_def Let_def st4_def)
  have inv4: "lifecycleInvariant st4" and b4: "edgeBundler st4 = Stopped"
    by (simp_all add: st4_def lifecycleInvariant_def atMostOneRunning_iff runningIsCurrent_def)
  from invariant_resumeLayout [OF inv4 b4] inv4 show ?thesis
    by (simp add: eq)
qed

lemma resetNavigationCallback_bundler: "edgeBundler (resetNavigationCallback H st) = Stopped"
proof -
  obtain center radius where loc: "locate H (g (stopLayout st)) = (center, radius)"
    by (cases "locate H (g (stopLayout st))")
  then show ?thesis
    by (simp add: resetNavigationCallback_def Let_def resumeLayout_def)
qed

lemma invariant_resetLayout: "lifecycleInvariant (resetLayout H watch st)"
proof -
  define st1 where "st1 = (stopLayout st)\<lparr>bundleButton := False\<rparr>"
  define st2 where "st2 = (if staticButton st1 then setLayoutType H (LAYOUT_STATIC H) st1
                 else setLayoutType H (LAYOUT_DYNAMIC H) st1)"
  define st3 where "st3 = st2\<lparr>g := clearVelocities H (randomizePositions H 100 (g st2))\<rparr>"
  define st4 where "st4 = (if watch then resetNavigationCallback H st3 else st3)"
  have eq: "resetLayout H watch st =
      (if skipLayout st2 \<or> getNodeCount (g st2) = 0 then st2 else startLayout st4)"
    by (simp add: resetLayout_def Let_def st1_def st2_def st3_def st4_def)
  have inv1: "lifecycleInvariant st1" and b1: "edgeBundler st1 = Stopped"
    by (simp_all add: st1_def lifecycleInvariant_def atMostOneRunning_iff runningIsCurrent_def)
  have inv2: "lifecycleInvariant st2" and b2: "edgeBundler st2 = Stopped"
    using inv1 b1 by (simp_all add: st2_def invariant_setLayoutType setLayoutType_bundler)
  have inv3: "lifecycleInvariant st3" and b3: "edgeBundler st3 = Stopped"
    using inv2 b2
    by (simp_all add: st3_def lifecycleInvariant_def atMostOneRunning_iff runningIsCurrent_def)
  have inv4: "lifecycleInvariant st4" and b4: "edgeBundler st4 = Stopped"
    using inv3 b3
    by (simp_all add: st4_def invariant_resetNavigationCallback resetNavigationCallback_bundler)
  from invariant_startLayout [OF inv4 b4] inv2 show ?thesis
    by (simp add: eq)
qed

lemma invariant_generatorCallback:
  "lifecycleInvariant st \<Longrightarrow> lifecycleInvariant (generatorCallback H cleared generated st)"
proof -
  assume inv: "lifecycleInvariant st"
  define st2 where "st2 = setLayoutType H (LAYOUT_DYNAMIC H) (st\<lparr>g := cleared\<rparr>)"
  have "lifecycleInvariant (st\<lparr>g := cleared\<rparr>)"
    using inv by (simp add: lifecycleInvariant_def atMostOneRunning_iff runningIsCurrent_def)
  then have inv2: "lifecycleInvariant st2"
    unfolding st2_def by (rule invariant_setLayoutType)
  have b2: "edgeBundler st2 = Stopped"
    unfolding st2_def by (rule setLayoutType_dynamic_bundler)
  have inv3: "lifecycleInvariant (st2\<lparr>g := generated\<rparr>)"
    using inv2 by (simp add: lifecycleInvariant_def atMostOneRunning_iff runningIsCurrent_def)
  have "lifecycleInvariant (resumeLayout (st2\<lparr>g := generated\<rparr>))"
    using inv3 by (rule invariant_resumeLayout) (simp add: b2)
  then show ?thesis
    by (simp add: generatorCallback_def Let_def st2_def)
qed

lemma reachable_invariant: "reachable H st \<Longrightarrow> lifecycleInvariant st"
proof (induction rule: reachable.induct)
  case (constructed st)
  then show ?case
    by (simp add: lifecycleInvariant_def atMostOneRunning_iff runningIsCurrent_def)
next
  case (by_setLayoutType st type)
  then show ?case by (simp add: invariant_setLayoutType)
next
  case (by_bundleCallback st set')
  then show ?case by (simp add: invariant_bundleCallback)
next
  case (by_resetLayout st watch)
  then show ?case by (simp add: invariant_resetLayout)
next
  case (by_resetNavigationCallback st)
  then show ?case by (simp add: invariant_resetNavigationCallback)
next
  case (by_generatorCallback st cleared generated)
  then show ?case by (simp add: invariant_generatorCallback)
next
  case (by_stopLayout st)
  then show ?case by (simp add: invariant_stopLayout)
next
  case (by_completion st)
  then show ?case
    by (simp add: lifecycleInvariant_def atMostOneRunning_iff runningIsCurrent_def)
next
  case (by_environment st gr skip box)
  then show ?case
    by (simp add: lifecycleInvariant_def atMostOneRunning_iff runningIsCurrent_def)
qed

text \<open>
  The statement of C5 for every operation that starts a layout fails for the bare
  \<^verbatim>\<open>startLayout\<close> (and so for \<^verbatim>\<open>resumeLayout\<close>), which starts the current layout
  and stops nothing: after bundling is enabled on a graph with a node, a call of
  \<^verbatim>\<open>startLayout\<close> leaves the edge bundler and the static layout both running.
\<close>

theorem two_running_counterexample:
  "edgeBundler (startLayout (bundleCallback True (exampleState (exampleGraph [0] (\<lambda>n. Point 0 0 0) []))))
     = Running \<and>
   staticLayout (startLayout (bundleCallback True (exampleState (exampleGraph [0] (\<lambda>n. Point 0 0 0) []))))
     = Running \<and>
   \<not> atMostOneRunning
       (startLayout (bundleCallback True (exampleState (exampleGraph [0] (\<lambda>n. Point 0 0 0) []))))"
  by (simp add: atMostOneRunning_iff startLayout_def bundleCallback_def getNodeCount_def
      exampleState_simps exampleGraph_simps Let_def start_def)

text \<open>
  C5 (amended). In every state reached from the constructed state by
  \<^verbatim>\<open>setLayoutType\<close>, \<^verbatim>\<open>bundleCallback\<close>, \<^verbatim>\<open>resetLayout\<close>,
  \<^verbatim>\<open>resetNavigationCallback\<close>, \<^verbatim>\<open>generatorCallback\<close>, \<^verbatim>\<open>stopLayout\<close>, the
  completion of the static layout and changes of the graph made from outside, at most
  one of the static layout, the dynamic layout and the edge bundler is running, and a
  running layout is the current one: each of these operations stops the others before
  it starts one.
\<close>

theorem at_most_one_running:
  "reachable H st \<Longrightarrow> atMostOneRunning st \<and> runningIsCurrent st"
  using reachable_invariant [of H st] by (simp add: lifecycleInvariant_def)

theorem at_most_one_running_witness:
  "reachable exampleHeaders
     (resetLayout exampleHeaders False
        (bundleCallback True (exampleState (exampleGraph [0] (\<lambda>n. Point 0 0 0) [])))) \<and>
   atMostOneRunning
     (resetLayout exampleHeaders False
        (bundleCallback True (exampleState (exampleGraph [0] (\<lambda>n. Point 0 0 0) [])))) \<and>
   edgeBundler (bundleCallback True (exampleState (exampleGraph [0] (\<lambda>n. Point 0 0 0) []))) = Running \<and>
   edgeBundler (resetLayout exampleHeaders False
        (bundleCallback True (exampleState (exampleGraph [0] (\<lambda>n. Point 0 0 0) [])))) = Stopped \<and>
   staticLayout (resetLayout exampleHeaders False
        (bundleCallback True (exampleState (exampleGraph [0] (\<lambda>n. Point 0 0 0) [])))) = Running"
proof -
  have r: "reachable exampleHeaders
     (resetLayout exampleHeaders False
        (bundleCallback True (exampleState (exampleGraph [0] (\<lambda>n. Point 0 0 0) []))))"
    by (intro by_resetLayout by_bundleCallback constructed) (simp_all add: exampleState_simps)
  have b: "bundleCallback True (exampleState (exampleGraph [0] (\<lambda>n. Point 0 0 0) []))
      = (exampleState (exampleGraph [0] (\<lambda>n. Point 0 0 0) []))\<lparr>edgeBundler := Running\<rparr>"
    by (simp add: bundleCallback_def getNodeCount_def exampleState_simps exampleGraph_simps
        Let_def start_def stopLayout_def stop_def exampleState_def)
  have fields: "edgeBundler (bundleCallback True (exampleState (exampleGraph [0] (\<lambda>n. Point 0 0 0) []))) = Running"
    "edgeBundler (resetLayout exampleHeaders False
        (bundleCallback True (exampleState (exampleGraph [0] (\<lambda>n. Point 0 0 0) [])))) = Stopped"
    "staticLayout (resetLayout exampleHeaders False
        (bundleCallback True (exampleState (exampleGraph [0] (\<lambda>n. Point 0 0 0) [])))) = Running"
    unfolding b
    by (simp_all add: resetLayout_def staticButton_def setLayoutType_def exampleHeaders_def
        exampleState_simps exampleGraph_simps getNodeCount_def startLayout_def start_def Let_def)
  from r at_most_one_running [OF r] fields show ?thesis by simp
qed

end
